theory Spec2Isabelle
  imports Complex_Main
begin

section \<open>Exceptions\<close>

text \<open>
  The Python exceptions that the modelled code can raise. A function that may raise
  returns \<open>error + 'a\<close>, with \<open>Inl\<close> for the exception.
\<close>

datatype error =
    ValueError
  | OverflowError
  | ZeroDivisionError
  | GEOSException

section \<open>Planar geometry (shapely)\<close>

text \<open>
  Coordinates are real numbers: the model is the exact-arithmetic reading of the
  floating-point code. A point is a pair \<open>(x, y)\<close>; in geographic coordinates that is
  \<open>(longitude, latitude)\<close>.
\<close>

type_synonym point = "real \<times> real"

text \<open>\<open>Point.distance(Point)\<close>: the Euclidean distance.\<close>

definition point_distance :: "point \<Rightarrow> point \<Rightarrow> real" where
  "point_distance p q = sqrt ((fst p - fst q)\<^sup>2 + (snd p - snd q)\<^sup>2)"

text \<open>
  \<open>LineString(coords)\<close>: shapely builds a line from no coordinates (the empty line) or
  from two or more, and raises on a single coordinate.
\<close>

definition LineString :: "point list \<Rightarrow> error + point list" where
  "LineString coords = (if length coords = 1 then Inl GEOSException else Inr coords)"

text \<open>\<open>LineString.length\<close>: the sum of the lengths of the segments.\<close>

fun line_length :: "point list \<Rightarrow> real" where
  "line_length (a # b # ps) = point_distance a b + line_length (b # ps)"
| "line_length _ = 0"

text \<open>
  \<open>LineString.interpolate(d)\<close>: the point at distance \<open>d\<close> along the line, the last
  vertex when \<open>d\<close> exceeds the length. (A negative \<open>d\<close> is measured backwards from the
  end by shapely.) The function is only specified for lines with two or more vertices.
\<close>

fun interpolate_forward :: "point list \<Rightarrow> real \<Rightarrow> point" where
  "interpolate_forward (a # b # ps) d =
     (let l = point_distance a b in
      if d \<le> 0 then a
      else if d < l then (fst a + (d / l) * (fst b - fst a), snd a + (d / l) * (snd b - snd a))
      else if ps = [] then b
      else interpolate_forward (b # ps) (d - l))"

definition interpolate :: "point list \<Rightarrow> real \<Rightarrow> point" where
  "interpolate line d =
     (if d < 0 then interpolate_forward line (line_length line + d)
      else interpolate_forward line d)"

text \<open>
  \<open>Point.distance(LineString)\<close>: the smallest distance to a segment of the line; the
  distance to a segment is the distance to the closest point of it, found by projecting
  onto the segment's line and clamping to the segment. Only specified for lines with
  two or more vertices.
\<close>

definition segment_distance :: "point \<Rightarrow> point \<Rightarrow> point \<Rightarrow> real" where
  "segment_distance p a b =
     (let dx = fst b - fst a; dy = snd b - snd a; l2 = dx\<^sup>2 + dy\<^sup>2 in
      if l2 = 0 then point_distance p a
      else
        let t = max 0 (min 1 (((fst p - fst a) * dx + (snd p - snd a) * dy) / l2))
        in point_distance p (fst a + t * dx, snd a + t * dy))"

fun line_distance :: "point \<Rightarrow> point list \<Rightarrow> real" where
  "line_distance p [a, b] = segment_distance p a b"
| "line_distance p (a # b # c # ps) =
     min (segment_distance p a b) (line_distance p (b # c # ps))"

text \<open>
  The projection library (geopandas over pyproj) is a parameter of the model:
  \<open>estimate_utm_crs\<close> picks a planar frame from the coordinates of a data frame's
  geometries and may raise, \<open>to_crs\<close> maps a geographic point into that frame, and
  \<open>to_crs_back\<close> maps a planar point back to geographic coordinates
  (\<open>to_crs(self.crs)\<close>).
\<close>

record 'crs gis =
  estimate_utm_crs :: "point list \<Rightarrow> error + 'crs"
  to_crs :: "'crs \<Rightarrow> point \<Rightarrow> point"
  to_crs_back :: "'crs \<Rightarrow> point \<Rightarrow> point"

text \<open>
  \<open>GeoDataFrame.estimate_utm_crs()\<close> on a frame of points. A frame without rows has no
  bounds, and geopandas raises \<open>ValueError\<close> for it; for every other frame the outcome is
  the parameter's.
\<close>

definition estimate_utm_crs_points :: "'crs gis \<Rightarrow> point list \<Rightarrow> error + 'crs" where
  "estimate_utm_crs_points g points =
     (if points = [] then Inl ValueError else estimate_utm_crs g points)"

section \<open>Python built-ins\<close>

text \<open>\<open>int(x)\<close> of a float: truncation towards zero.\<close>

definition int_of_float :: "real \<Rightarrow> int" where
  "int_of_float x = (if 0 \<le> x then \<lfloor>x\<rfloor> else \<lceil>x\<rceil>)"

text \<open>
  \<open>range(start, stop, step)\<close>, as the list of its elements: counting up for a positive
  step, down for a negative one; a zero step raises \<open>ValueError\<close>.
\<close>

function range_up :: "int \<Rightarrow> int \<Rightarrow> int \<Rightarrow> int list" where
  "range_up i stop step =
     (if 0 < step \<and> i < stop then i # range_up (i + step) stop step else [])"
  by pat_completeness auto
termination
  by (relation "measure (\<lambda>(i, stop, step). nat (stop - i))") auto

function range_down :: "int \<Rightarrow> int \<Rightarrow> int \<Rightarrow> int list" where
  "range_down i stop step =
     (if step < 0 \<and> stop < i then i # range_down (i + step) stop step else [])"
  by pat_completeness auto
termination
  by (relation "measure (\<lambda>(i, stop, step). nat (i - stop))") auto

declare range_up.simps [simp del]
declare range_down.simps [simp del]

definition py_range :: "int \<Rightarrow> int \<Rightarrow> int \<Rightarrow> error + int list" where
  "py_range start stop step =
     (if step = 0 then Inl ValueError
      else if 0 < step then Inr (range_up start stop step)
      else Inr (range_down start stop step))"

section \<open>RoadSampler (road\_sampler.py)\<close>

text \<open>
  The sampler in its manual mode (a list of coordinates; fetching a road from
  OpenStreetMap is outside the model). The fields \<open>road_line\<close> and \<open>sample_points\<close> of the
  class carry the prefix \<open>sampler_\<close> here, since the analyzer has fields of the same
  names. \<open>road_projected\<close> holds the projected line together with the frame of
  \<open>road_projected_gdf\<close>.
\<close>

record 'crs road_sampler =
  road_coords :: "point list"
  distance_interval :: int
  sampler_road_line :: "point list option"
  road_projected :: "('crs \<times> point list) option"
  sampler_sample_points :: "point list option"

text \<open>\<open>RoadSampler(road_coords, distance_interval)\<close>: the constructor, in the manual mode.\<close>

definition RoadSampler :: "point list \<Rightarrow> int \<Rightarrow> 'crs road_sampler" where
  "RoadSampler coords interval =
     \<lparr>road_coords = coords, distance_interval = interval, sampler_road_line = None,
      road_projected = None, sampler_sample_points = None\<rparr>"

definition create_road_line :: "'crs road_sampler \<Rightarrow> error + point list \<times> 'crs road_sampler" where
  "create_road_line rs =
     (case LineString (road_coords rs) of
        Inl e \<Rightarrow> Inl e
      | Inr line \<Rightarrow> Inr (line, rs\<lparr>sampler_road_line := Some line\<rparr>))"

definition project_road ::
  "'crs gis \<Rightarrow> 'crs road_sampler \<Rightarrow> error + ('crs \<times> point list) \<times> 'crs road_sampler" where
  "project_road g rs =
     (case (case sampler_road_line rs of
              None \<Rightarrow> create_road_line rs
            | Some line \<Rightarrow> Inr (line, rs)) of
        Inl e \<Rightarrow> Inl e
      | Inr (line, rs1) \<Rightarrow>
          (case estimate_utm_crs g line of
             Inl e \<Rightarrow> Inl e
           | Inr utm \<Rightarrow>
               let projected = map (to_crs g utm) line
               in Inr ((utm, projected), rs1\<lparr>road_projected := Some (utm, projected)\<rparr>)))"

text \<open>
  \<open>if self.road_projected is None: self.project_road()\<close>, the first statement of
  \<open>generate_sample_points\<close> and of \<open>get_road_length\<close>.
\<close>

definition ensure_projected ::
  "'crs gis \<Rightarrow> 'crs road_sampler \<Rightarrow> error + ('crs \<times> point list) \<times> 'crs road_sampler" where
  "ensure_projected g rs =
     (case road_projected rs of
        None \<Rightarrow> project_road g rs
      | Some p \<Rightarrow> Inr (p, rs))"

text \<open>
  The distances of the comprehension of \<open>generate_sample_points\<close>:
  \<open>range(0, int(self.road_projected.length), self.distance_interval)\<close>.
\<close>

definition sample_distances :: "point list \<Rightarrow> int \<Rightarrow> error + int list" where
  "sample_distances line interval = py_range 0 (int_of_float (line_length line)) interval"

definition generate_sample_points ::
  "'crs gis \<Rightarrow> 'crs road_sampler \<Rightarrow> error + point list \<times> 'crs road_sampler" where
  "generate_sample_points g rs =
     (case ensure_projected g rs of
        Inl e \<Rightarrow> Inl e
      | Inr ((utm, line), rs1) \<Rightarrow>
          (case sample_distances line (distance_interval rs1) of
             Inl e \<Rightarrow> Inl e
           | Inr ds \<Rightarrow>
               let points = map (\<lambda>d. interpolate line (real_of_int d)) ds;
                   sample_points = map (to_crs_back g utm) points
               in Inr (sample_points, rs1\<lparr>sampler_sample_points := Some sample_points\<rparr>)))"

definition get_road_length :: "'crs gis \<Rightarrow> 'crs road_sampler \<Rightarrow> error + real \<times> 'crs road_sampler" where
  "get_road_length g rs =
     (case ensure_projected g rs of
        Inl e \<Rightarrow> Inl e
      | Inr ((utm, line), rs1) \<Rightarrow> Inr (line_length line, rs1))"

section \<open>Python and pandas operations used by the analyzer\<close>

text \<open>
  \<open>int(s)\<close> of a string, base 10: surrounding whitespace is stripped, then an optional
  sign, then decimal digits, where single underscores may stand between digits. The
  model covers ASCII strings: the whitespace that \<open>int\<close> skips there is the tab, the line
  feed, the vertical tab, the form feed, the carriage return and the space, and the
  digits are \<open>0\<close> to \<open>9\<close>.
\<close>

definition is_space :: "char \<Rightarrow> bool" where
  "is_space c = (let n = (of_char c :: nat) in (9 \<le> n \<and> n \<le> 13) \<or> n = 32)"

definition is_digit :: "char \<Rightarrow> bool" where
  "is_digit c = (let n = (of_char c :: nat) in 48 \<le> n \<and> n \<le> 57)"

definition digit_value :: "char \<Rightarrow> int" where
  "digit_value c = int (of_char c) - 48"

definition strip :: "string \<Rightarrow> string" where
  "strip s = rev (dropWhile is_space (rev (dropWhile is_space s)))"

text \<open>
  \<open>digits prev acc s\<close> reads the digits of \<open>s\<close>; \<open>prev\<close> says that the character just
  read was a digit, which an underscore and the end of the string both need.
\<close>

fun digits :: "bool \<Rightarrow> int \<Rightarrow> string \<Rightarrow> int option" where
  "digits prev acc [] = (if prev then Some acc else None)"
| "digits prev acc (c # cs) =
     (if is_digit c then digits True (10 * acc + digit_value c) cs
      else if c = CHR ''_'' \<and> prev then digits False acc cs
      else None)"

definition int_of_str :: "string \<Rightarrow> error + int" where
  "int_of_str s =
     (case strip s of
        [] \<Rightarrow> Inl ValueError
      | c # cs \<Rightarrow>
          (case (if c = CHR ''-'' then digits False 0 cs
                 else if c = CHR ''+'' then digits False 0 cs
                 else digits False 0 (c # cs)) of
             None \<Rightarrow> Inl ValueError
           | Some n \<Rightarrow> Inr (if c = CHR ''-'' then - n else n)))"

text \<open>
  \<open>Series.astype(int)\<close> on a column of strings: \<open>int\<close> of each element, stored as a
  64-bit integer; the first element that does not convert raises, and no column is
  produced.
\<close>

definition int64_of_str :: "string \<Rightarrow> error + int" where
  "int64_of_str s =
     (case int_of_str s of
        Inl e \<Rightarrow> Inl e
      | Inr n \<Rightarrow> if - (2 ^ 63) \<le> n \<and> n < 2 ^ 63 then Inr n else Inl OverflowError)"

fun astype_int :: "string list \<Rightarrow> error + int list" where
  "astype_int [] = Inr []"
| "astype_int (s # ss) =
     (case int64_of_str s of
        Inl e \<Rightarrow> Inl e
      | Inr n \<Rightarrow> (case astype_int ss of Inl e \<Rightarrow> Inl e | Inr ns \<Rightarrow> Inr (n # ns)))"

text \<open>\<open>s.split(':')[0]\<close>: the characters before the first colon.\<close>

definition split_first :: "string \<Rightarrow> string" where
  "split_first s = takeWhile (\<lambda>c. c \<noteq> CHR '':'') s"

text \<open>
  \<open>Series.value_counts()\<close>: the missing values (\<open>None\<close>) are dropped, and each distinct
  value is paired with its number of occurrences, most frequent first. (The order among
  values of equal frequency is the order of first appearance here.)
\<close>

definition dropna :: "'a option list \<Rightarrow> 'a list" where
  "dropna col = map the (filter (\<lambda>v. v \<noteq> None) col)"

definition value_counts :: "'a option list \<Rightarrow> ('a \<times> nat) list" where
  "value_counts col =
     (let vals = dropna col
      in sort_key (\<lambda>(v, n). - int n)
           (map (\<lambda>v. (v, count_list vals v)) (rev (remdups (rev vals)))))"

text \<open>\<open>Series.mode()\<close>: the most frequent values, in ascending order.\<close>

definition mode :: "int list \<Rightarrow> int list" where
  "mode col =
     (let vals = sort (remdups col);
          m = fold max (map (count_list col) vals) 0
      in filter (\<lambda>v. count_list col v = m) vals)"

text \<open>\<open>DataFrame.loc[labels]\<close>: for each label in turn, the rows that carry it.\<close>

definition loc :: "('r \<Rightarrow> int) \<Rightarrow> 'r list \<Rightarrow> int list \<Rightarrow> 'r list" where
  "loc index df labels = concat (map (\<lambda>l. filter (\<lambda>r. index r = l) df) labels)"

text \<open>True division \<open>a / b\<close> of two Python integers.\<close>

definition truediv :: "int \<Rightarrow> int \<Rightarrow> error + real" where
  "truediv a b = (if b = 0 then Inl ZeroDivisionError else Inr (real_of_int a / real_of_int b))"

section \<open>CollisionAnalyzer (collision\_analyzer.py)\<close>

text \<open>
  A row of the collision data frame: its label in the frame's index, its point
  \<open>(longitude, latitude)\<close>, and the columns that the analyzer reads. Every cell holds a
  value: missing values in the input columns are outside the model.
\<close>

record collision =
  label :: int
  geometry :: point
  time :: string
  collision_severity :: int
  day_of_week :: int
  weather_conditions :: int
  light_conditions :: int
  number_of_casualties :: int

text \<open>
  A row of \<open>nearby_collisions\<close>: the collision with the columns that
  \<open>find_nearby_collisions\<close> adds. A name is \<open>None\<close> where pandas has a missing value
  (NaN).
\<close>

record nearby_collision =
  row :: collision
  distance_to_road_m :: real
  severity_name :: "string option"
  day_name :: "string option"
  weather_name :: "string option"
  light_name :: "string option"
  hour :: int

definition SEVERITY_MAP :: "int \<Rightarrow> string option" where
  "SEVERITY_MAP = map_of [(1, ''Fatal''), (2, ''Serious''), (3, ''Slight'')]"

definition DAY_MAP :: "int \<Rightarrow> string option" where
  "DAY_MAP = map_of
     [(1, ''Sunday''), (2, ''Monday''), (3, ''Tuesday''), (4, ''Wednesday''),
      (5, ''Thursday''), (6, ''Friday''), (7, ''Saturday'')]"

definition WEATHER_MAP :: "int \<Rightarrow> string option" where
  "WEATHER_MAP = map_of
     [(1, ''Fine no high winds''),
      (2, ''Raining no high winds''),
      (3, ''Snowing no high winds''),
      (4, ''Fine + high winds''),
      (5, ''Raining + high winds''),
      (6, ''Snowing + high winds''),
      (7, ''Fog or mist''),
      (8, ''Other''),
      (9, ''Unknown''),
      (- 1, ''Data missing'')]"

definition LIGHT_MAP :: "int \<Rightarrow> string option" where
  "LIGHT_MAP = map_of
     [(1, ''Daylight''),
      (4, ''Darkness - lights lit''),
      (5, ''Darkness - lights unlit''),
      (6, ''Darkness - no lighting''),
      (7, ''Darkness - lighting unknown''),
      (- 1, ''Data missing'')]"

text \<open>The entries of the statistics dictionary.\<close>

record share =
  count :: nat
  percentage :: real

record summary =
  total_collisions :: nat
  total_casualties :: int
  avg_casualties_per_collision :: real
  collisions_per_sample_point :: real

record time_statistics =
  most_common_hour :: "int option"
  hour_counts :: "(int \<times> nat) list"
  time_distribution :: "(string \<times> share) list"

record statistics_report =
  stats_summary :: summary
  stats_severity :: "(string \<times> share) list"
  stats_time :: time_statistics
  stats_day_of_week :: "(string \<times> share) list"
  stats_weather :: "(string \<times> share) list"
  stats_light :: "(string \<times> share) list"

record collision_analyzer =
  collisions_gdf :: "collision list"
  sample_points :: "point list"
  road_line :: "point list"
  radius :: real
  nearby_collisions :: "nearby_collision list option"
  statistics :: "statistics_report option"

text \<open>\<open>CollisionAnalyzer(collisions_gdf, sample_points, road_line, radius)\<close>: the constructor.\<close>

definition CollisionAnalyzer ::
  "collision list \<Rightarrow> point list \<Rightarrow> point list \<Rightarrow> real \<Rightarrow> collision_analyzer" where
  "CollisionAnalyzer collisions points line r =
     \<lparr>collisions_gdf = collisions, sample_points = points, road_line = line, radius = r,
      nearby_collisions = None, statistics = None\<rparr>"

text \<open>
  \<open>_add_mapped_columns\<close>, on the rows of \<open>nearby_collisions\<close> with their distances to the
  road: \<open>Series.map(dict)\<close> looks each code up in the dictionary, and the hour is the
  integer before the first colon of the time. The conversion of the hours raises when an
  element does not convert.
\<close>

definition add_mapped_columns :: "(collision \<times> real) list \<Rightarrow> error + nearby_collision list" where
  "add_mapped_columns rows =
     (case astype_int (map (\<lambda>(c, d). split_first (time c)) rows) of
        Inl e \<Rightarrow> Inl e
      | Inr hours \<Rightarrow>
          Inr (map (\<lambda>((c, d), h).
                 \<lparr>row = c,
                  distance_to_road_m = d,
                  severity_name = SEVERITY_MAP (collision_severity c),
                  day_name = DAY_MAP (day_of_week c),
                  weather_name = WEATHER_MAP (weather_conditions c),
                  light_name = LIGHT_MAP (light_conditions c),
                  hour = h\<rparr>)
               (zip rows hours)))"

text \<open>
  The labels of the collisions within the radius of one sample point:
  \<open>distances[distances <= self.radius].index\<close>.
\<close>

definition within_radius :: "(int \<times> point) list \<Rightarrow> point \<Rightarrow> real \<Rightarrow> int list" where
  "within_radius collisions_projected sample_point r =
     map fst (filter (\<lambda>(l, p). point_distance p sample_point \<le> r) collisions_projected)"

text \<open>
  \<open>find_nearby_collisions\<close>. \<open>nearby_indices\<close> is a set of labels, as in the source; the
  order in which \<open>list(nearby_indices)\<close> enumerates it is not fixed by Python, and the
  model takes the ascending one. The analyzer is returned with \<open>nearby_collisions\<close> set;
  when the function raises, the result is the exception alone.
\<close>

definition find_nearby_collisions ::
  "'crs gis \<Rightarrow> collision_analyzer \<Rightarrow> error + nearby_collision list \<times> collision_analyzer" where
  "find_nearby_collisions g an =
     (case estimate_utm_crs_points g (sample_points an) of
        Inl e \<Rightarrow> Inl e
      | Inr utm_crs \<Rightarrow>
          let collisions_projected =
                map (\<lambda>c. (label c, to_crs g utm_crs (geometry c))) (collisions_gdf an);
              sample_points_projected = map (to_crs g utm_crs) (sample_points an);
              road_projected = map (to_crs g utm_crs) (road_line an);
              nearby_indices =
                fold (\<lambda>sample_point acc.
                        acc \<union> set (within_radius collisions_projected sample_point (radius an)))
                  sample_points_projected {};
              nearby = loc label (collisions_gdf an) (sorted_list_of_set nearby_indices);
              distances_to_road =
                map (\<lambda>c. line_distance (to_crs g utm_crs (geometry c)) road_projected) nearby
          in (case add_mapped_columns (zip nearby distances_to_road) of
                Inl e \<Rightarrow> Inl e
              | Inr result \<Rightarrow> Inr (result, an\<lparr>nearby_collisions := Some result\<rparr>)))"

text \<open>One categorical breakdown of \<open>calculate_statistics\<close>.\<close>

definition breakdown :: "nat \<Rightarrow> string option list \<Rightarrow> (string \<times> share) list" where
  "breakdown n_total col =
     map (\<lambda>(v, n). (v, \<lparr>count = n, percentage = (real n / real n_total) * 100\<rparr>))
       (value_counts col)"

definition time_ranges :: "(string \<times> int \<times> int) list" where
  "time_ranges =
     [(''Night (00-06)'', 0, 6),
      (''Morning Rush (07-09)'', 7, 9),
      (''Midday (10-15)'', 10, 15),
      (''Evening Rush (16-18)'', 16, 18),
      (''Evening (19-23)'', 19, 23)]"

definition calculate_statistics ::
  "'crs gis \<Rightarrow> collision_analyzer \<Rightarrow> error + statistics_report \<times> collision_analyzer" where
  "calculate_statistics g an =
     (case (case nearby_collisions an of
              None \<Rightarrow> find_nearby_collisions g an
            | Some nc \<Rightarrow> Inr (nc, an)) of
        Inl e \<Rightarrow> Inl e
      | Inr (nc, an1) \<Rightarrow>
          let n_total = length nc;
              casualties = sum_list (map (\<lambda>m. number_of_casualties (row m)) nc)
          in (case truediv (int n_total) (int (length (sample_points an1))) of
               Inl e \<Rightarrow> Inl e
             | Inr per_sample_point \<Rightarrow>
                 let hours = map hour nc;
                     report =
                       \<lparr>stats_summary =
                          \<lparr>total_collisions = n_total,
                           total_casualties = casualties,
                           avg_casualties_per_collision =
                             (if n_total > 0 then real_of_int casualties / real n_total else 0),
                           collisions_per_sample_point = per_sample_point\<rparr>,
                        stats_severity = breakdown n_total (map severity_name nc),
                        stats_time =
                          \<lparr>most_common_hour = (if n_total > 0 then Some (hd (mode hours)) else None),
                           hour_counts = sort_key fst (value_counts (map Some hours)),
                           time_distribution =
                             map (\<lambda>(name, start, stop).
                                    let n = length (filter (\<lambda>h. start \<le> h \<and> h \<le> stop) hours)
                                    in (name,
                                        \<lparr>count = n,
                                         percentage =
                                           (if n_total > 0 then (real n / real n_total) * 100 else 0)\<rparr>))
                               time_ranges\<rparr>,
                        stats_day_of_week = breakdown n_total (map day_name nc),
                        stats_weather = breakdown n_total (map weather_name nc),
                        stats_light = breakdown n_total (map light_name nc)\<rparr>
                 in Inr (report, an1\<lparr>statistics := Some report\<rparr>)))"

text \<open>
  The states of an analyzer: the constructor builds one, and a call of
  \<open>find_nearby_collisions\<close> or of \<open>calculate_statistics\<close> that returns leads to the next.
  (A call that raises keeps no state in the model. In Python it leaves the object
  unchanged when the frame of the sample points is not found, and with a matched set
  that lacks the hour column when the hours do not convert.)
\<close>

inductive reachable :: "'crs gis \<Rightarrow> collision_analyzer \<Rightarrow> bool" for g :: "'crs gis" where
  constructed: "reachable g (CollisionAnalyzer collisions points line r)"
| found: "reachable g an \<Longrightarrow> find_nearby_collisions g an = Inr (res, an') \<Longrightarrow> reachable g an'"
| calculated: "reachable g an \<Longrightarrow> calculate_statistics g an = Inr (st, an') \<Longrightarrow> reachable g an'"

section \<open>Points on a line\<close>

text \<open>
  Membership in a segment and in a line, for stating where sample points lie: \<open>q\<close> is on
  the segment from \<open>a\<close> to \<open>b\<close> when \<open>q - a\<close> is parallel to \<open>b - a\<close> and its
  projection falls between the two ends.
\<close>

definition on_segment :: "point \<Rightarrow> point \<Rightarrow> point \<Rightarrow> bool" where
  "on_segment q a b =
     (let dx = fst b - fst a; dy = snd b - snd a;
          ux = fst q - fst a; uy = snd q - snd a
      in if dx\<^sup>2 + dy\<^sup>2 = 0 then ux = 0 \<and> uy = 0
         else ux * dy = uy * dx \<and> 0 \<le> ux * dx + uy * dy \<and> ux * dx + uy * dy \<le> dx\<^sup>2 + dy\<^sup>2)"

fun on_line :: "point \<Rightarrow> point list \<Rightarrow> bool" where
  "on_line q (a # b # ps) = (on_segment q a b \<or> on_line q (b # ps))"
| "on_line q _ = False"

section \<open>Worked examples\<close>

text \<open>
  The examples below fix the projection parameter to a simple one: a single planar frame
  in which one degree is 100000 metres in both directions, and \<open>ValueError\<close> for
  geometries without coordinates.
\<close>

definition example_gis :: "unit gis" where
  "example_gis =
     \<lparr>estimate_utm_crs = (\<lambda>coords. if coords = [] then Inl ValueError else Inr ()),
      to_crs = (\<lambda>_ p. (100000 * fst p, 100000 * snd p)),
      to_crs_back = (\<lambda>_ p. (fst p / 100000, snd p / 100000))\<rparr>"

text \<open>
  The data of the worked examples: a road of 100 metres along the y axis with sample
  points at 0 and 50 metres, a collision 30 metres beside the start of the road, one 200
  metres away, and one on the road between the two sample points, whose codes are in
  none of the lookup tables.
\<close>

definition collision_a :: collision where
  "collision_a = \<lparr>label = 10, geometry = (0.0003, 0), time = ''17:42'', collision_severity = 1,
     day_of_week = 2, weather_conditions = 1, light_conditions = 4, number_of_casualties = 2\<rparr>"

definition collision_b :: collision where
  "collision_b = \<lparr>label = 11, geometry = (0.002, 0.0005), time = ''09:30'', collision_severity = 3,
     day_of_week = 6, weather_conditions = 2, light_conditions = 1, number_of_casualties = 1\<rparr>"

definition collision_c :: collision where
  "collision_c = \<lparr>label = 12, geometry = (0, 0.0004), time = ''08:05'', collision_severity = 4,
     day_of_week = 8, weather_conditions = 0, light_conditions = 2, number_of_casualties = 1\<rparr>"

definition example_analyzer :: collision_analyzer where
  "example_analyzer =
     CollisionAnalyzer [collision_a, collision_b, collision_c] [(0, 0), (0, 0.0005)]
       [(0, 0), (0, 0.001)] 50"


text \<open>
  A collision on the road whose time does not start with an integer, and an analyzer over
  it and a well-formed collision.
\<close>

definition collision_d :: collision where
  "collision_d = \<lparr>label = 13, geometry = (0, 0.0002), time = ''ab:cd'', collision_severity = 2,
     day_of_week = 3, weather_conditions = 1, light_conditions = 1, number_of_casualties = 1\<rparr>"

definition malformed_time_analyzer :: collision_analyzer where
  "malformed_time_analyzer =
     CollisionAnalyzer [collision_a, collision_d] [(0, 0), (0, 0.0005)] [(0, 0), (0, 0.001)] 50"

text \<open>
  An analyzer over a road of half a metre, for which the sampler returns no sample point.
\<close>

definition empty_analyzer :: collision_analyzer where
  "empty_analyzer = CollisionAnalyzer [collision_b] [] [(0, 0), (0, 0.000005)] 50"

text \<open>
  A frame in which two rows carry the same index label: the collision beside the start of
  the road, and one 500 metres away from it.
\<close>

definition collision_far :: collision where
  "collision_far = \<lparr>label = 10, geometry = (0.005, 0), time = ''10:15'', collision_severity = 3,
     day_of_week = 4, weather_conditions = 1, light_conditions = 1, number_of_casualties = 1\<rparr>"

definition duplicate_label_analyzer :: collision_analyzer where
  "duplicate_label_analyzer =
     CollisionAnalyzer [collision_a, collision_far] [(0, 0), (0, 0.0005)] [(0, 0), (0, 0.001)] 50"

text \<open>An analyzer whose only matched collision has all its codes in the lookup tables.\<close>

definition single_analyzer :: collision_analyzer where
  "single_analyzer =
     CollisionAnalyzer [collision_a, collision_b] [(0, 0), (0, 0.0005)] [(0, 0), (0, 0.001)] 50"

section \<open>Properties of \<open>range\<close> and of the geometry\<close>

lemma range_up_Nil: "\<not> i < stop \<Longrightarrow> range_up i stop step = []"
  by (simp add: range_up.simps)

lemma range_up_Cons: "0 < step \<Longrightarrow> i < stop \<Longrightarrow> range_up i stop step = i # range_up (i + step) stop step"
  by (subst range_up.simps) simp

lemma ceil_div_step:
  fixes a step :: int
  assumes "0 < step" "0 < a"
  shows "(a + step - 1) div step = (a - step + step - 1) div step + 1"
proof -
  have "(a + step - 1) div step = ((a - 1) + step) div step" by (simp add: algebra_simps)
  also have "\<dots> = (a - 1) div step + 1" using assms by simp
  finally show ?thesis by simp
qed

lemma range_up_count: "0 < step \<Longrightarrow> int (length (range_up i stop step)) = (if i < stop then (stop - i + step - 1) div step else 0)"
proof (induction i stop step rule: range_up.induct)
  case (1 i stop step)
  show ?case
  proof (cases "i < stop")
    case True
    note unfold = range_up_Cons[OF 1(2) True]
    have ih: "int (length (range_up (i + step) stop step)) = (if i + step < stop then (stop - (i + step) + step - 1) div step else 0)"
      using 1 True by simp
    have step: "(stop - i + step - 1) div step = (stop - i - 1) div step + 1"
      using ceil_div_step[OF 1(2), of "stop - i"] True by simp
    show ?thesis
    proof (cases "i + step < stop")
      case True
      have "stop - (i + step) + step - 1 = stop - i - 1" by simp
      with ih True step \<open>i < stop\<close> show ?thesis unfolding unfold by simp
    next
      case False
      then have "(stop - i - 1) div step = 0"
        using \<open>i < stop\<close> by (intro div_pos_pos_trivial) simp_all
      with ih False step \<open>i < stop\<close> show ?thesis unfolding unfold by simp
    qed
  next
    case False
    then show ?thesis by (simp add: range_up_Nil)
  qed
qed

lemma range_up_set: "0 < step \<Longrightarrow> set (range_up i stop step) = {d. d < stop \<and> (\<exists>k::nat. d = i + int k * step)}"
proof (induction i stop step rule: range_up.induct)
  case (1 i stop step)
  show ?case
  proof (cases "i < stop")
    case True
    note unfold = range_up_Cons[OF 1(2) True]
    have ih: "set (range_up (i + step) stop step) = {d. d < stop \<and> (\<exists>k::nat. d = i + step + int k * step)}"
      using 1 True by simp
    have "{d. d < stop \<and> (\<exists>k::nat. d = i + int k * step)} = insert i {d. d < stop \<and> (\<exists>k::nat. d = i + step + int k * step)}"
    proof (intro set_eqI iffI)
      fix d assume "d \<in> {d. d < stop \<and> (\<exists>k::nat. d = i + int k * step)}"
      then obtain k :: nat where k: "d < stop" "d = i + int k * step" by auto
      show "d \<in> insert i {d. d < stop \<and> (\<exists>k::nat. d = i + step + int k * step)}"
      proof (cases k)
        case 0 with k show ?thesis by simp
      next
        case (Suc j)
        with k have "d = i + step + int j * step" by (simp add: algebra_simps)
        with k show ?thesis by auto
      qed
    next
      fix d assume "d \<in> insert i {d. d < stop \<and> (\<exists>k::nat. d = i + step + int k * step)}"
      then consider "d = i" | k :: nat where "d < stop" "d = i + step + int k * step" by auto
      then show "d \<in> {d. d < stop \<and> (\<exists>k::nat. d = i + int k * step)}"
      proof cases
        case 1 
        then have "d = i + int 0 * step" by simp
        with 1 True show ?thesis by blast
      next
        case 2
        then have "d = i + int (Suc k) * step" by (simp add: algebra_simps)
        with 2 show ?thesis by blast
      qed
    qed
    with ih show ?thesis unfolding unfold by simp
  next
    case False
    have "\<not> (i + int k * step < stop)" for k :: nat
    proof -
      have "0 \<le> int k * step" using 1(2) by simp
      with False show ?thesis by linarith
    qed
    then have "{d. d < stop \<and> (\<exists>k::nat. d = i + int k * step)} = {}" by blast
    with False show ?thesis by (simp add: range_up_Nil)
  qed
qed

lemma range_up_sorted: "0 < step \<Longrightarrow> sorted (range_up i stop step) \<and> distinct (range_up i stop step)"
proof (induction i stop step rule: range_up.induct)
  case (1 i stop step)
  show ?case
  proof (cases "i < stop")
    case True
    note unfold = range_up_Cons[OF 1(2) True]
    have ih: "sorted (range_up (i + step) stop step) \<and> distinct (range_up (i + step) stop step)"
      using 1 True by simp
    have "i < d" if "d \<in> set (range_up (i + step) stop step)" for d
    proof -
      from that obtain k :: nat where "d = i + step + int k * step"
        unfolding range_up_set[OF 1(2)] by blast
      moreover have "0 \<le> int k * step" using 1(2) by simp
      ultimately show ?thesis using 1(2) by linarith
    qed
    then have "\<forall>d \<in> set (range_up (i + step) stop step). i \<le> d" "i \<notin> set (range_up (i + step) stop step)"
      by fastforce+
    with ih show ?thesis unfolding unfold by simp
  next
    case False
    then show ?thesis by (simp add: range_up_Nil)
  qed
qed

lemma range_down_Nil: "\<not> stop < i \<Longrightarrow> range_down i stop step = []"
  by (simp add: range_down.simps)

lemma point_distance_nonneg: "0 \<le> point_distance p q"
  by (simp add: point_distance_def)

lemma line_length_nonneg: "0 \<le> line_length ps"
  by (induction ps rule: line_length.induct) (simp_all add: point_distance_nonneg)

lemma int_of_float_length: "int_of_float (line_length ps) = \<lfloor>line_length ps\<rfloor>"
  by (simp add: int_of_float_def line_length_nonneg)

lemma floor_length_nonneg: "0 \<le> \<lfloor>line_length ps\<rfloor>"
  by (simp add: line_length_nonneg)

lemma sample_distances_positive:
  assumes "0 < interval"
  shows "sample_distances line interval = Inr (range_up 0 \<lfloor>line_length line\<rfloor> interval)"
  using assms by (simp add: sample_distances_def py_range_def int_of_float_length)

lemma sample_distances_zero: "sample_distances line 0 = Inl ValueError"
  by (simp add: sample_distances_def py_range_def)

lemma sample_distances_negative:
  assumes "interval < 0"
  shows "sample_distances line interval = Inr []"
  using assms floor_length_nonneg[of line]
  by (simp add: sample_distances_def py_range_def int_of_float_length range_down_Nil)

lemma create_road_line_interval:
  "create_road_line rs = Inr (line, rs1) \<Longrightarrow> distance_interval rs1 = distance_interval rs"
  by (auto simp: create_road_line_def split: sum.splits)

lemma project_road_interval:
  "project_road g rs = Inr (p, rs1) \<Longrightarrow> distance_interval rs1 = distance_interval rs"
  using create_road_line_interval[of rs]
  by (fastforce simp: project_road_def Let_def split: sum.splits option.splits)

lemma ensure_projected_interval:
  "ensure_projected g rs = Inr (p, rs1) \<Longrightarrow> distance_interval rs1 = distance_interval rs"
  using project_road_interval[of g rs]
  by (fastforce simp: ensure_projected_def split: option.splits)

lemma generate_sample_points_unfold:
  assumes "ensure_projected g rs = Inr ((utm, line), rs1)"
    and "sample_distances line (distance_interval rs) = Inr ds"
  shows "generate_sample_points g rs =
    Inr (map (\<lambda>d. to_crs_back g utm (interpolate line (real_of_int d))) ds,
         rs1\<lparr>sampler_sample_points := Some (map (\<lambda>d. to_crs_back g utm (interpolate line (real_of_int d))) ds)\<rparr>)"
  using assms ensure_projected_interval[OF assms(1)]
  by (simp add: generate_sample_points_def Let_def comp_def)

lemma generate_sample_points_error:
  assumes "ensure_projected g rs = Inr ((utm, line), rs1)"
    and "sample_distances line (distance_interval rs) = Inl e"
  shows "generate_sample_points g rs = Inl e"
  using assms ensure_projected_interval[OF assms(1)]
  by (simp add: generate_sample_points_def)

lemma point_distance_vertical: "point_distance (x, y) (x, y') = \<bar>y - y'\<bar>"
  by (simp add: point_distance_def)

lemma point_distance_horizontal: "point_distance (x, y) (x', y) = \<bar>x - x'\<bar>"
  by (simp add: point_distance_def)

lemma example_ensure_projected:
  "ensure_projected example_gis (RoadSampler [(0, 0), (0, y)] i) =
     Inr (((), [(0, 0), (0, 100000 * y)]),
          \<lparr>road_coords = [(0, 0), (0, y)], distance_interval = i,
           sampler_road_line = Some [(0, 0), (0, y)],
           road_projected = Some ((), [(0, 0), (0, 100000 * y)]),
           sampler_sample_points = None\<rparr>)"
  by (simp add: ensure_projected_def project_road_def create_road_line_def LineString_def
      RoadSampler_def example_gis_def Let_def)

section \<open>The sampler\<close>

text \<open>
  C3. For a positive interval \<open>I\<close>, the distances at which \<open>generate_sample_points\<close>
  interpolates are exactly the multiples \<open>0, I, 2I, ...\<close> of the interval that lie in the
  half-open range from 0 to the truncated length of the projected road, each once and
  in ascending order; the truncation \<open>int(length)\<close> is the floor of the length; and the
  points returned are the interpolations at these distances, so that no point is
  emitted at or past the truncated length.
\<close>

theorem sample_distances_grid:
  assumes "0 < distance_interval rs"
    and "ensure_projected g rs = Inr ((utm, line), rs1)"
  shows "\<exists>ds rs2.
           sample_distances line (distance_interval rs) = Inr ds
         \<and> set ds = {d. 0 \<le> d \<and> d < \<lfloor>line_length line\<rfloor> \<and> (\<exists>k::nat. d = int k * distance_interval rs)}
         \<and> sorted ds \<and> distinct ds
         \<and> int_of_float (line_length line) = \<lfloor>line_length line\<rfloor>
         \<and> generate_sample_points g rs =
             Inr (map (\<lambda>d. to_crs_back g utm (interpolate line (real_of_int d))) ds, rs2)"
proof -
  let ?I = "distance_interval rs"
  let ?ds = "range_up 0 \<lfloor>line_length line\<rfloor> ?I"
  have ds: "sample_distances line ?I = Inr ?ds"
    by (rule sample_distances_positive[OF assms(1)])
  have "set ?ds = {d. d < \<lfloor>line_length line\<rfloor> \<and> (\<exists>k::nat. d = 0 + int k * ?I)}"
    by (rule range_up_set[OF assms(1)])
  moreover have "0 \<le> int k * ?I" for k :: nat
    using assms(1) by simp
  ultimately have set: "set ?ds = {d. 0 \<le> d \<and> d < \<lfloor>line_length line\<rfloor> \<and> (\<exists>k::nat. d = int k * ?I)}"
    by auto
  note generate_sample_points_unfold[OF assms(2) ds]
  with ds set range_up_sorted[OF assms(1), of 0 "\<lfloor>line_length line\<rfloor>"] int_of_float_length[of line]
  show ?thesis by blast
qed

theorem sample_distances_grid_witness:
  "(0::int) < 50
   \<and> ensure_projected example_gis (RoadSampler [(0, 0), (0, 0.00111)] 50) =
       Inr (((), [(0, 0), (0, 111)]),
            \<lparr>road_coords = [(0, 0), (0, 0.00111)], distance_interval = 50,
             sampler_road_line = Some [(0, 0), (0, 0.00111)],
             road_projected = Some ((), [(0, 0), (0, 111)]),
             sampler_sample_points = None\<rparr>)
   \<and> (\<exists>ds rs2.
         sample_distances [(0, 0), (0, 111)] 50 = Inr ds
       \<and> set ds = {d. 0 \<le> d \<and> d < 111 \<and> (\<exists>k::nat. d = int k * 50)}
       \<and> generate_sample_points example_gis (RoadSampler [(0, 0), (0, 0.00111)] 50) =
           Inr (map (\<lambda>d. to_crs_back example_gis () (interpolate [(0, 0), (0, 111)] (real_of_int d))) ds, rs2))"
proof -
  let ?rs = "RoadSampler [(0, 0), (0, 0.00111)] 50 :: unit road_sampler"
  have i: "0 < distance_interval ?rs" by (simp add: RoadSampler_def)
  have p: "ensure_projected example_gis ?rs =
       Inr (((), [(0, 0), (0, 111)]),
            \<lparr>road_coords = [(0, 0), (0, 0.00111)], distance_interval = 50,
             sampler_road_line = Some [(0, 0), (0, 0.00111)],
             road_projected = Some ((), [(0, 0), (0, 111)]),
             sampler_sample_points = None\<rparr>)"
    by (simp add: example_ensure_projected)
  have l: "\<lfloor>line_length [(0, 0), (0, 111)]\<rfloor> = 111"
    by (simp add: point_distance_vertical)
  show ?thesis
    using sample_distances_grid[OF i p] p l by (simp add: RoadSampler_def) blast
qed

lemma ceil_div_cases:
  fixes L I :: int
  assumes "0 < I" "0 \<le> L"
  shows "(L + I - 1) div I = (if L mod I = 0 then L div I else L div I + 1)"
proof -
  define q r where "q = L div I" and "r = L mod I"
  have L: "L = r + q * I" and r: "0 \<le> r" "r < I"
    using assms by (simp_all add: q_def r_def)
  have I: "I \<noteq> 0" using assms by simp
  show ?thesis
  proof (cases "r = 0")
    case True
    have eq: "L + I - 1 = (I - 1) + q * I" using L True by simp
    have "(L + I - 1) div I = ((I - 1) + q * I) div I" by (simp only: eq)
    also have "\<dots> = q + (I - 1) div I" by (rule div_mult_self1[OF I])
    finally have "(L + I - 1) div I = q + (I - 1) div I" .
    moreover have "(I - 1) div I = 0" using assms by (intro div_pos_pos_trivial) simp_all
    ultimately show ?thesis using True by (simp add: q_def r_def)
  next
    case False
    have eq: "L + I - 1 = (r - 1) + (q + 1) * I" using L by (simp add: algebra_simps)
    have "(L + I - 1) div I = ((r - 1) + (q + 1) * I) div I" by (simp only: eq)
    also have "\<dots> = (q + 1) + (r - 1) div I" by (rule div_mult_self1[OF I])
    finally have "(L + I - 1) div I = (q + 1) + (r - 1) div I" .
    moreover have "(r - 1) div I = 0" using r False by (intro div_pos_pos_trivial) simp_all
    ultimately show ?thesis using False by (simp add: q_def r_def)
  qed
qed

lemma length_sample_distances:
  assumes "0 < I"
  shows "int (length (range_up 0 \<lfloor>line_length line\<rfloor> I)) = (\<lfloor>line_length line\<rfloor> + I - 1) div I"
proof (cases "0 < \<lfloor>line_length line\<rfloor>")
  case True
  then show ?thesis using range_up_count[OF assms, of 0 "\<lfloor>line_length line\<rfloor>"] by simp
next
  case False
  then have z: "\<lfloor>line_length line\<rfloor> = 0" using floor_length_nonneg[of line] by linarith
  have "(I - 1) div I = 0" using assms by (simp add: div_pos_pos_trivial)
  with z show ?thesis using range_up_count[OF assms, of 0 "\<lfloor>line_length line\<rfloor>"] by simp
qed

lemma range_up_111: "range_up 0 111 50 = [0, 50, 100]"
  by (simp add: range_up.simps)

lemma range_up_100: "range_up 0 100 50 = [0, 50]"
  by (simp add: range_up.simps)

lemma range_up_three:
  assumes "100 < L" "L \<le> 150"
  shows "range_up 0 L 50 = [0, 50, 100]"
proof -
  have "range_up 0 L 50 = 0 # range_up 50 L 50"
    using range_up_Cons[of 50 0 L] assms by simp
  also have "range_up 50 L 50 = 50 # range_up 100 L 50"
    using range_up_Cons[of 50 50 L] assms by simp
  also have "range_up 100 L 50 = 100 # range_up 150 L 50"
    using range_up_Cons[of 50 100 L] assms by simp
  also have "range_up 150 L 50 = []"
    using range_up_Nil[of 150 L 50] assms by simp
  finally show ?thesis .
qed

text \<open>
  C2, as amended. For a positive interval \<open>I\<close> and a road whose projection succeeds,
  \<open>generate_sample_points\<close> returns, and the number of points is the ceiling of
  \<open>floor(length) / I\<close>: that is \<open>floor(length) div I\<close> when \<open>I\<close> divides the truncated
  length, and \<open>floor(length) div I + 1\<close> otherwise. For a road of about 111 metres (a
  truncated length above 100 and up to 150) and an interval of 50 the distances are 0, 50
  and 100, three points.
\<close>

theorem generate_sample_points_count:
  assumes "0 < distance_interval rs"
    and "ensure_projected g rs = Inr ((utm, line), rs1)"
  shows "\<exists>points rs2.
           generate_sample_points g rs = Inr (points, rs2)
         \<and> int (length points) =
             (\<lfloor>line_length line\<rfloor> + distance_interval rs - 1) div distance_interval rs
         \<and> int (length points) =
             (if \<lfloor>line_length line\<rfloor> mod distance_interval rs = 0
              then \<lfloor>line_length line\<rfloor> div distance_interval rs
              else \<lfloor>line_length line\<rfloor> div distance_interval rs + 1)
         \<and> (100 < \<lfloor>line_length line\<rfloor> \<and> \<lfloor>line_length line\<rfloor> \<le> 150 \<and> distance_interval rs = 50
            \<longrightarrow> sample_distances line (distance_interval rs) = Inr [0, 50, 100]
              \<and> length points = 3)"
proof -
  let ?I = "distance_interval rs"
  let ?ds = "range_up 0 \<lfloor>line_length line\<rfloor> ?I"
  let ?points = "map (\<lambda>d. to_crs_back g utm (interpolate line (real_of_int d))) ?ds"
  have ds: "sample_distances line ?I = Inr ?ds"
    by (rule sample_distances_positive[OF assms(1)])
  note gen = generate_sample_points_unfold[OF assms(2) ds]
  have len: "int (length ?points) = (\<lfloor>line_length line\<rfloor> + ?I - 1) div ?I"
    using length_sample_distances[OF assms(1), of line] by simp
  have cases: "int (length ?points) =
     (if \<lfloor>line_length line\<rfloor> mod ?I = 0 then \<lfloor>line_length line\<rfloor> div ?I
      else \<lfloor>line_length line\<rfloor> div ?I + 1)"
    using len ceil_div_cases[OF assms(1) floor_length_nonneg[of line]] by simp
  have ex: "100 < \<lfloor>line_length line\<rfloor> \<and> \<lfloor>line_length line\<rfloor> \<le> 150 \<and> ?I = 50
      \<longrightarrow> sample_distances line ?I = Inr [0, 50, 100] \<and> length ?points = 3"
  proof (intro impI, elim conjE)
    assume a: "100 < \<lfloor>line_length line\<rfloor>" "\<lfloor>line_length line\<rfloor> \<le> 150" and b: "?I = 50"
    have three: "?ds = [0, 50, 100]" unfolding b by (rule range_up_three[OF a])
    from ds show "sample_distances line ?I = Inr [0, 50, 100] \<and> length ?points = 3"
      unfolding three by simp
  qed
  from gen len cases ex show ?thesis by (intro exI conjI)
qed

theorem generate_sample_points_count_witness:
  "(0::int) < 50
   \<and> \<lfloor>line_length (map (to_crs example_gis ()) [(0, 0), (0, 0.00111)])\<rfloor> = 111
   \<and> sample_distances (map (to_crs example_gis ()) [(0, 0), (0, 0.00111)]) 50 = Inr [0, 50, 100]
   \<and> (\<exists>points rs2.
         generate_sample_points example_gis (RoadSampler [(0, 0), (0, 0.00111)] 50) = Inr (points, rs2)
       \<and> length points = 3)"
proof -
  let ?rs = "RoadSampler [(0, 0), (0, 0.00111)] 50 :: unit road_sampler"
  have i: "0 < distance_interval ?rs" by (simp add: RoadSampler_def)
  have p: "ensure_projected example_gis ?rs =
       Inr (((), [(0, 0), (0, 111)]),
            \<lparr>road_coords = [(0, 0), (0, 0.00111)], distance_interval = 50,
             sampler_road_line = Some [(0, 0), (0, 0.00111)],
             road_projected = Some ((), [(0, 0), (0, 111)]),
             sampler_sample_points = None\<rparr>)"
    by (simp add: example_ensure_projected)
  have l: "\<lfloor>line_length [(0, 0), (0, 111)]\<rfloor> = 111"
    by (simp add: point_distance_vertical)
  have d: "distance_interval ?rs = 50" by (simp add: RoadSampler_def)
  from generate_sample_points_count[OF i p]
  have "\<exists>points rs2. generate_sample_points example_gis ?rs = Inr (points, rs2)
      \<and> (100 < \<lfloor>line_length [(0, 0), (0, 111)]\<rfloor> \<and> \<lfloor>line_length [(0, 0), (0, 111)]\<rfloor> \<le> 150
            \<and> distance_interval ?rs = 50
          \<longrightarrow> sample_distances [(0, 0), (0, 111)] (distance_interval ?rs) = Inr [0, 50, 100]
            \<and> length points = 3)"
    by (elim exE conjE, rule_tac x = points in exI, rule_tac x = rs2 in exI) (intro conjI)
  then have "sample_distances [(0, 0), (0, 111)] 50 = Inr [0, 50, 100]
     \<and> (\<exists>points rs2. generate_sample_points example_gis ?rs = Inr (points, rs2) \<and> length points = 3)"
    unfolding l d by auto
  then show ?thesis using l by (simp add: example_gis_def)
qed

lemma example_generate_sample_points:
  assumes "sample_distances [(0, 0), (0, 100000 * y)] i = Inr ds"
  shows "generate_sample_points example_gis (RoadSampler [(0, 0), (0, y)] i) =
     Inr (map (\<lambda>d. to_crs_back example_gis () (interpolate [(0, 0), (0, 100000 * y)] (real_of_int d))) ds,
          \<lparr>road_coords = [(0, 0), (0, y)], distance_interval = i,
           sampler_road_line = Some [(0, 0), (0, y)],
           road_projected = Some ((), [(0, 0), (0, 100000 * y)]),
           sampler_sample_points =
             Some (map (\<lambda>d. to_crs_back example_gis () (interpolate [(0, 0), (0, 100000 * y)] (real_of_int d))) ds)\<rparr>)"
proof -
  have "distance_interval (RoadSampler [(0, 0), (0, y)] i :: unit road_sampler) = i"
    by (simp add: RoadSampler_def)
  with assms show ?thesis
    using generate_sample_points_unfold[OF example_ensure_projected, of y i ds] by simp
qed

text \<open>
  C2 as stated fails: a road of length 100 sampled every 50 metres gives two points, not
  \<open>floor(100 / 50) + 1 = 3\<close>; and a road of length 111 gives the three distances 0, 50
  and 100, not two points.
\<close>

theorem generate_sample_points_count_counterexample:
  "map_sum id fst (generate_sample_points example_gis (RoadSampler [(0, 0), (0, 0.001)] 50)) =
     Inr [(0, 0), (0, 0.0005)]
   \<and> line_length (map (to_crs example_gis ()) [(0, 0), (0, 0.001)]) = 100
   \<and> \<lfloor>real_of_int \<lfloor>100 :: real\<rfloor> / 50\<rfloor> + 1 = (3 :: int)
   \<and> line_length (map (to_crs example_gis ()) [(0, 0), (0, 0.00111)]) = 111
   \<and> sample_distances (map (to_crs example_gis ()) [(0, 0), (0, 0.00111)]) 50 = Inr [0, 50, 100]
   \<and> map_sum id fst (generate_sample_points example_gis (RoadSampler [(0, 0), (0, 0.00111)] 50)) =
     Inr [(0, 0), (0, 0.0005), (0, 0.001)]"
proof -
  have d100: "sample_distances [(0, 0), (0, 100000 * 0.001)] 50 = Inr [0, 50]"
    by (simp add: sample_distances_positive point_distance_vertical range_up_100)
  have d111: "sample_distances [(0, 0), (0, 100000 * 0.00111)] 50 = Inr [0, 50, 100]"
    by (simp add: sample_distances_positive point_distance_vertical range_up_111)
  have "map_sum id fst (generate_sample_points example_gis (RoadSampler [(0, 0), (0, 0.001)] 50)) =
     Inr [(0, 0), (0, 0.0005)]"
    unfolding example_generate_sample_points[OF d100]
    by (simp add: example_gis_def interpolate_def point_distance_vertical)
  moreover have "map_sum id fst (generate_sample_points example_gis (RoadSampler [(0, 0), (0, 0.00111)] 50)) =
     Inr [(0, 0), (0, 0.0005), (0, 0.001)]"
    unfolding example_generate_sample_points[OF d111]
    by (simp add: example_gis_def interpolate_def point_distance_vertical)
  moreover have "sample_distances (map (to_crs example_gis ()) [(0, 0), (0, 0.00111)]) 50 = Inr [0, 50, 100]"
    using d111 by (simp add: example_gis_def)
  ultimately show ?thesis
    by (simp add: example_gis_def point_distance_vertical)
qed

text \<open>
  C5, as amended. For an interval that is not positive, the road is projected first, and
  a failure there is the failure of the sampling. After that a zero interval raises
  \<open>ValueError\<close> (from \<open>range\<close>) before any point is interpolated, and a negative interval
  raises nothing: the result is the empty set of sample points.
\<close>

theorem generate_sample_points_nonpositive:
  assumes "distance_interval rs \<le> 0"
  shows "generate_sample_points g rs =
     (case ensure_projected g rs of
        Inl e \<Rightarrow> Inl e
      | Inr (p, rs1) \<Rightarrow>
          if distance_interval rs = 0 then Inl ValueError
          else Inr ([], rs1\<lparr>sampler_sample_points := Some []\<rparr>))"
proof (cases "ensure_projected g rs")
  case (Inl e)
  then show ?thesis by (simp add: generate_sample_points_def)
next
  case (Inr x)
  obtain utm line rs1 where x: "x = ((utm, line), rs1)" by (metis surj_pair)
  note p = Inr[unfolded x]
  show ?thesis
  proof (cases "distance_interval rs = 0")
    case True
    then have "sample_distances line (distance_interval rs) = Inl ValueError"
      by (simp add: sample_distances_zero)
    from generate_sample_points_error[OF p this] show ?thesis using p True by simp
  next
    case False
    with assms have "distance_interval rs < 0" by simp
    then have "sample_distances line (distance_interval rs) = Inr []"
      by (rule sample_distances_negative)
    from generate_sample_points_unfold[OF p this] show ?thesis using p False by simp
  qed
qed

theorem generate_sample_points_nonpositive_witness:
  "generate_sample_points example_gis (RoadSampler [(0, 0), (0, 0.001)] 0) = Inl ValueError
   \<and> map_sum id fst (generate_sample_points example_gis (RoadSampler [(0, 0), (0, 0.001)] (- 50))) = Inr []
   \<and> generate_sample_points example_gis (RoadSampler [] 0) = Inl ValueError"
proof -
  have a: "distance_interval (RoadSampler [(0, 0), (0, 0.001)] 0 :: unit road_sampler) \<le> 0"
    and b: "distance_interval (RoadSampler [(0, 0), (0, 0.001)] (- 50) :: unit road_sampler) \<le> 0"
    and c: "distance_interval (RoadSampler [] 0 :: unit road_sampler) \<le> 0"
    by (simp_all add: RoadSampler_def)
  have e: "ensure_projected example_gis (RoadSampler [] 0) = Inl ValueError"
    by (simp add: ensure_projected_def project_road_def create_road_line_def LineString_def
      RoadSampler_def example_gis_def)
  show ?thesis
    unfolding generate_sample_points_nonpositive[OF a] generate_sample_points_nonpositive[OF b]
      generate_sample_points_nonpositive[OF c] example_ensure_projected e
    by (simp add: RoadSampler_def)
qed

text \<open>
  C5 as stated fails: with the interval \<open>-50\<close> the sampling returns normally, with no
  sample points.
\<close>

theorem generate_sample_points_negative_counterexample:
  "generate_sample_points example_gis (RoadSampler [(0, 0), (0, 0.001)] (- 50)) =
     Inr ([],
          \<lparr>road_coords = [(0, 0), (0, 0.001)], distance_interval = - 50,
           sampler_road_line = Some [(0, 0), (0, 0.001)],
           road_projected = Some ((), [(0, 0), (0, 100)]),
           sampler_sample_points = Some []\<rparr>)"
proof -
  have "sample_distances [(0, 0), (0, 100000 * 0.001)] (- 50) = Inr []"
    by (simp add: sample_distances_negative)
  from example_generate_sample_points[OF this] show ?thesis by simp
qed

section \<open>The matcher\<close>

lemma fold_union:
  "fold (\<lambda>x acc. acc \<union> f x) xs A = A \<union> (\<Union>x \<in> set xs. f x)"
  by (induction xs arbitrary: A) auto

lemma set_loc: "set (loc index df ls) = {r \<in> set df. index r \<in> set ls}"
  by (auto simp: loc_def)

lemma distinct_loc:
  assumes "distinct (map index df)" "distinct ls"
  shows "distinct (map index (loc index df ls))"
  using assms(2)
proof (induction ls)
  case Nil
  then show ?case by (simp add: loc_def)
next
  case (Cons l ls)
  have split: "loc index df (l # ls) = filter (\<lambda>r. index r = l) df @ loc index df ls"
    by (simp add: loc_def)
  have "distinct (map index (filter (\<lambda>r. index r = l) df))"
    using assms(1) by (rule distinct_map_filter)
  moreover have "distinct (map index (loc index df ls))" using Cons by simp
  moreover have "set (map index (filter (\<lambda>r. index r = l) df)) \<inter> set (map index (loc index df ls)) = {}"
    using Cons.prems by (auto simp: set_loc)
  ultimately show ?case unfolding split by simp
qed

lemma astype_int_length: "astype_int ss = Inr ns \<Longrightarrow> length ns = length ss"
  by (induction ss arbitrary: ns) (auto split: sum.splits)

lemma astype_int_error:
  "s \<in> set ss \<Longrightarrow> int64_of_str s = Inl e \<Longrightarrow> \<exists>e'. astype_int ss = Inl e'"
  by (induction ss) (auto split: sum.splits)

lemma int64_of_str_errors: "int64_of_str s = Inl e \<Longrightarrow> e = ValueError \<or> e = OverflowError"
  by (auto simp: int64_of_str_def int_of_str_def split: sum.splits list.splits option.splits if_splits)

lemma astype_int_errors: "astype_int ss = Inl e \<Longrightarrow> e = ValueError \<or> e = OverflowError"
  by (induction ss) (auto split: sum.splits dest: int64_of_str_errors)

lemma add_mapped_columns_Inr:
  assumes "add_mapped_columns rows = Inr res"
  shows "map row res = map fst rows"
    and "map distance_to_road_m res = map snd rows"
    and "map severity_name res = map (\<lambda>(c, d). SEVERITY_MAP (collision_severity c)) rows"
    and "map day_name res = map (\<lambda>(c, d). DAY_MAP (day_of_week c)) rows"
    and "map weather_name res = map (\<lambda>(c, d). WEATHER_MAP (weather_conditions c)) rows"
    and "map light_name res = map (\<lambda>(c, d). LIGHT_MAP (light_conditions c)) rows"
    and "astype_int (map (\<lambda>(c, d). split_first (time c)) rows) = Inr (map hour res)"
proof -
  from assms obtain hours where h: "astype_int (map (\<lambda>(c, d). split_first (time c)) rows) = Inr hours"
    and res: "res = map (\<lambda>((c, d), h).
                 \<lparr>row = c, distance_to_road_m = d,
                  severity_name = SEVERITY_MAP (collision_severity c),
                  day_name = DAY_MAP (day_of_week c),
                  weather_name = WEATHER_MAP (weather_conditions c),
                  light_name = LIGHT_MAP (light_conditions c),
                  hour = h\<rparr>) (zip rows hours)"
    by (auto simp: add_mapped_columns_def split: sum.splits)
  have len: "length hours = length rows" using astype_int_length[OF h] by simp
  have z1: "map fst (zip rows hours) = rows" and z2: "map snd (zip rows hours) = hours"
    using len by simp_all
  show "map row res = map fst rows"
    unfolding res by (subst (2) z1[symmetric]) (simp add: case_prod_beta comp_def del: map_fst_zip)
  show "map distance_to_road_m res = map snd rows"
    unfolding res by (subst (2) z1[symmetric]) (simp add: case_prod_beta comp_def del: map_fst_zip)
  show "map severity_name res = map (\<lambda>(c, d). SEVERITY_MAP (collision_severity c)) rows"
    unfolding res by (subst (2) z1[symmetric]) (simp add: case_prod_beta comp_def del: map_fst_zip)
  show "map day_name res = map (\<lambda>(c, d). DAY_MAP (day_of_week c)) rows"
    unfolding res by (subst (2) z1[symmetric]) (simp add: case_prod_beta comp_def del: map_fst_zip)
  show "map weather_name res = map (\<lambda>(c, d). WEATHER_MAP (weather_conditions c)) rows"
    unfolding res by (subst (2) z1[symmetric]) (simp add: case_prod_beta comp_def del: map_fst_zip)
  show "map light_name res = map (\<lambda>(c, d). LIGHT_MAP (light_conditions c)) rows"
    unfolding res by (subst (2) z1[symmetric]) (simp add: case_prod_beta comp_def del: map_fst_zip)
  have "map hour res = hours"
    unfolding res by (subst (2) z2[symmetric]) (simp add: case_prod_beta comp_def del: map_snd_zip)
  with h show "astype_int (map (\<lambda>(c, d). split_first (time c)) rows) = Inr (map hour res)" by simp
qed

lemma set_within_radius_map:
  "set (within_radius (map (\<lambda>c. (label c, P (geometry c))) df) sp r) =
     {l. \<exists>c \<in> set df. l = label c \<and> point_distance (P (geometry c)) sp \<le> r}"
  by (auto simp: within_radius_def filter_map comp_def)

lemma nearby_indices_set:
  "fold (\<lambda>sample_point acc.
           acc \<union> set (within_radius (map (\<lambda>c. (label c, P (geometry c))) df) sample_point r))
     (map P sps) {} =
   {l. \<exists>c \<in> set df. l = label c \<and> (\<exists>s \<in> set sps. point_distance (P (geometry c)) (P s) \<le> r)}"
  unfolding fold_union set_within_radius_map by auto

lemma finite_nearby_indices:
  "finite {l. \<exists>c \<in> set df. l = label c \<and> Q c}"
proof -
  have "{l. \<exists>c \<in> set df. l = label c \<and> Q c} \<subseteq> label ` set df" by auto
  then show ?thesis by (rule finite_subset) simp
qed

lemma estimate_utm_crs_points_Inr:
  "estimate_utm_crs_points g points = Inr utm \<longleftrightarrow>
     points \<noteq> [] \<and> estimate_utm_crs g points = Inr utm"
  by (simp add: estimate_utm_crs_points_def)

lemma find_nearby_collisions_no_sample_points:
  "sample_points an = [] \<Longrightarrow> find_nearby_collisions g an = Inl ValueError"
  by (simp add: find_nearby_collisions_def estimate_utm_crs_points_def)

lemma find_nearby_collisions_unfold:
  assumes "estimate_utm_crs g (sample_points an) = Inr utm"
    and "sample_points an \<noteq> []"
  shows "find_nearby_collisions g an =
     (let nearby = loc label (collisions_gdf an)
            (sorted_list_of_set
               {l. \<exists>c \<in> set (collisions_gdf an). l = label c \<and>
                     (\<exists>s \<in> set (sample_points an).
                        point_distance (to_crs g utm (geometry c)) (to_crs g utm s) \<le> radius an)})
      in case add_mapped_columns
             (zip nearby
                (map (\<lambda>c. line_distance (to_crs g utm (geometry c)) (map (to_crs g utm) (road_line an)))
                   nearby)) of
           Inl e \<Rightarrow> Inl e
         | Inr result \<Rightarrow> Inr (result, an\<lparr>nearby_collisions := Some result\<rparr>))"
  using assms
  by (simp add: find_nearby_collisions_def estimate_utm_crs_points_def Let_def nearby_indices_set)

lemma example_gis_nonempty: "estimate_utm_crs example_gis points = Inr u \<Longrightarrow> points \<noteq> []"
  by (auto simp: example_gis_def)

lemma find_nearby_collisions_Inr:
  assumes "find_nearby_collisions g an = Inr (res, an')"
  shows "\<exists>utm. estimate_utm_crs g (sample_points an) = Inr utm
     \<and> sample_points an \<noteq> []
     \<and> map row res = loc label (collisions_gdf an)
            (sorted_list_of_set
               {l. \<exists>c \<in> set (collisions_gdf an). l = label c \<and>
                     (\<exists>s \<in> set (sample_points an).
                        point_distance (to_crs g utm (geometry c)) (to_crs g utm s) \<le> radius an)})
     \<and> map distance_to_road_m res =
         map (\<lambda>c. line_distance (to_crs g utm (geometry c)) (map (to_crs g utm) (road_line an)))
           (map row res)
     \<and> map severity_name res = map (\<lambda>c. SEVERITY_MAP (collision_severity c)) (map row res)
     \<and> map day_name res = map (\<lambda>c. DAY_MAP (day_of_week c)) (map row res)
     \<and> map weather_name res = map (\<lambda>c. WEATHER_MAP (weather_conditions c)) (map row res)
     \<and> map light_name res = map (\<lambda>c. LIGHT_MAP (light_conditions c)) (map row res)
     \<and> astype_int (map (\<lambda>c. split_first (time c)) (map row res)) = Inr (map hour res)
     \<and> an' = an\<lparr>nearby_collisions := Some res\<rparr>"
proof -
  from assms obtain utm where "estimate_utm_crs_points g (sample_points an) = Inr utm"
    by (auto simp: find_nearby_collisions_def split: sum.splits)
  then have utm: "estimate_utm_crs g (sample_points an) = Inr utm"
    and ne: "sample_points an \<noteq> []"
    by (simp_all add: estimate_utm_crs_points_Inr)
  define nearby where "nearby = loc label (collisions_gdf an)
            (sorted_list_of_set
               {l. \<exists>c \<in> set (collisions_gdf an). l = label c \<and>
                     (\<exists>s \<in> set (sample_points an).
                        point_distance (to_crs g utm (geometry c)) (to_crs g utm s) \<le> radius an)})"
  define f where "f = (\<lambda>c :: collision. line_distance (to_crs g utm (geometry c)) (map (to_crs g utm) (road_line an)))"
  from assms have add: "add_mapped_columns (zip nearby (map f nearby)) = Inr res"
    and an': "an' = an\<lparr>nearby_collisions := Some res\<rparr>"
    unfolding find_nearby_collisions_unfold[OF utm ne] nearby_def f_def Let_def
    by (auto split: sum.splits)
  note cols = add_mapped_columns_Inr[OF add]
  have fst: "map fst (zip nearby (map f nearby)) = nearby" by simp
  have r: "map row res = nearby" using cols(1) fst by simp
  have g: "map (\<lambda>(c, d). h c) (zip nearby (map f nearby)) = map h nearby" for h :: "collision \<Rightarrow> 'b"
    by (induction nearby) simp_all
  have d: "map distance_to_road_m res = map f (map row res)"
    using cols(2) r by simp
  show ?thesis
    using utm ne r d cols(3-7) an' unfolding g r unfolding nearby_def f_def
    by (intro exI[of _ utm] conjI) simp_all
qed

lemma point_distance_le_iff:
  "0 \<le> r \<Longrightarrow> point_distance p q \<le> r \<longleftrightarrow> (fst p - fst q)\<^sup>2 + (snd p - snd q)\<^sup>2 \<le> r\<^sup>2"
  unfolding point_distance_def
  by (metis real_sqrt_le_iff real_sqrt_abs abs_of_nonneg)

lemma int64_of_str_17: "int64_of_str ''17'' = Inr 17"
  by (simp add: int64_of_str_def int_of_str_def strip_def is_space_def is_digit_def digit_value_def)

lemma int64_of_str_08: "int64_of_str ''08'' = Inr 8"
  by (simp add: int64_of_str_def int_of_str_def strip_def is_space_def is_digit_def digit_value_def)

lemma example_nearby_labels:
  "{l. \<exists>c \<in> set (collisions_gdf example_analyzer). l = label c \<and>
         (\<exists>s \<in> set (sample_points example_analyzer).
            point_distance (to_crs example_gis () (geometry c)) (to_crs example_gis () s)
              \<le> radius example_analyzer)} = {10, 12}"
  by (auto simp: example_analyzer_def CollisionAnalyzer_def example_gis_def collision_a_def
      collision_b_def collision_c_def point_distance_le_iff power2_eq_square)

lemma example_find_nearby_collisions:
  "find_nearby_collisions example_gis example_analyzer =
     Inr ([\<lparr>row = collision_a, distance_to_road_m = 30, severity_name = Some ''Fatal'',
            day_name = Some ''Monday'', weather_name = Some ''Fine no high winds'',
            light_name = Some ''Darkness - lights lit'', hour = 17\<rparr>,
           \<lparr>row = collision_c, distance_to_road_m = 0, severity_name = None,
            day_name = None, weather_name = None, light_name = None, hour = 8\<rparr>],
          example_analyzer\<lparr>nearby_collisions := Some
          [\<lparr>row = collision_a, distance_to_road_m = 30, severity_name = Some ''Fatal'',
            day_name = Some ''Monday'', weather_name = Some ''Fine no high winds'',
            light_name = Some ''Darkness - lights lit'', hour = 17\<rparr>,
           \<lparr>row = collision_c, distance_to_road_m = 0, severity_name = None,
            day_name = None, weather_name = None, light_name = None, hour = 8\<rparr>]\<rparr>)"
proof -
  have e: "estimate_utm_crs example_gis (sample_points example_analyzer) = Inr ()"
    by (simp add: example_gis_def example_analyzer_def CollisionAnalyzer_def)
  have l: "loc label (collisions_gdf example_analyzer) (sorted_list_of_set {10, 12}) =
      [collision_a, collision_c]"
    by (simp add: loc_def example_analyzer_def CollisionAnalyzer_def collision_a_def
      collision_b_def collision_c_def)
  have d1: "line_distance (to_crs example_gis () (geometry collision_a))
       (map (to_crs example_gis ()) (road_line example_analyzer)) = 30"
    by (simp add: example_gis_def example_analyzer_def CollisionAnalyzer_def collision_a_def
      segment_distance_def Let_def point_distance_horizontal)
  have d2: "line_distance (to_crs example_gis () (geometry collision_c))
       (map (to_crs example_gis ()) (road_line example_analyzer)) = 0"
    by (simp add: example_gis_def example_analyzer_def CollisionAnalyzer_def collision_c_def
      segment_distance_def Let_def point_distance_vertical)
  have t1: "split_first (time collision_a) = ''17''" and t2: "split_first (time collision_c) = ''08''"
    by (simp_all add: split_first_def collision_a_def collision_c_def)
  have s: "SEVERITY_MAP (collision_severity collision_a) = Some ''Fatal''"
      "DAY_MAP (day_of_week collision_a) = Some ''Monday''"
      "WEATHER_MAP (weather_conditions collision_a) = Some ''Fine no high winds''"
      "LIGHT_MAP (light_conditions collision_a) = Some ''Darkness - lights lit''"
      "SEVERITY_MAP (collision_severity collision_c) = None"
      "DAY_MAP (day_of_week collision_c) = None"
      "WEATHER_MAP (weather_conditions collision_c) = None"
      "LIGHT_MAP (light_conditions collision_c) = None"
    by (simp_all add: SEVERITY_MAP_def DAY_MAP_def WEATHER_MAP_def LIGHT_MAP_def
      collision_a_def collision_c_def)
  show ?thesis
    unfolding find_nearby_collisions_unfold[OF e example_gis_nonempty[OF e]] example_nearby_labels l Let_def
    by (simp add: add_mapped_columns_def d1 d2 t1 t2 s int64_of_str_17 int64_of_str_08)
qed

lemma count_list_distinct: "distinct xs \<Longrightarrow> x \<in> set xs \<Longrightarrow> count_list xs x = 1"
  by (induction xs) auto

text \<open>
  C1, as amended. Let the rows of the collision data frame carry pairwise distinct index
  labels (the matcher selects the rows by their labels). Whenever
  \<open>find_nearby_collisions\<close> returns, a collision is among the returned rows if and only
  if it is a row of the input whose planar distance to at least one sample point is at
  most the radius; no label occurs twice in the result, and every returned collision
  occurs exactly once, also when it lies within the radius of several sample points.
\<close>

theorem find_nearby_collisions_membership:
  assumes "distinct (map label (collisions_gdf an))"
    and "find_nearby_collisions g an = Inr (res, an')"
  shows "\<exists>utm. estimate_utm_crs g (sample_points an) = Inr utm
     \<and> (\<forall>c. c \<in> set (map row res) \<longleftrightarrow>
            c \<in> set (collisions_gdf an) \<and>
            (\<exists>s \<in> set (sample_points an).
               point_distance (to_crs g utm (geometry c)) (to_crs g utm s) \<le> radius an))
     \<and> distinct (map (\<lambda>m. label (row m)) res)
     \<and> (\<forall>c \<in> set (map row res). count_list (map row res) c = 1)"
proof -
  from find_nearby_collisions_Inr[OF assms(2)] obtain utm
    where utm: "estimate_utm_crs g (sample_points an) = Inr utm"
      and rows: "map row res = loc label (collisions_gdf an)
            (sorted_list_of_set
               {l. \<exists>c \<in> set (collisions_gdf an). l = label c \<and>
                     (\<exists>s \<in> set (sample_points an).
                        point_distance (to_crs g utm (geometry c)) (to_crs g utm s) \<le> radius an)})"
    by blast
  let ?near = "\<lambda>c. \<exists>s \<in> set (sample_points an).
                 point_distance (to_crs g utm (geometry c)) (to_crs g utm s) \<le> radius an"
  let ?N = "{l. \<exists>c \<in> set (collisions_gdf an). l = label c \<and> ?near c}"
  have fin: "finite ?N" by (rule finite_nearby_indices)
  have inj: "inj_on label (set (collisions_gdf an))"
    using assms(1) by (simp add: distinct_map)
  have mem: "c \<in> set (map row res) \<longleftrightarrow> c \<in> set (collisions_gdf an) \<and> ?near c" for c
  proof
    assume "c \<in> set (map row res)"
    then have c: "c \<in> set (collisions_gdf an)" and "label c \<in> ?N"
      unfolding rows set_loc using fin by simp_all
    then obtain c' where c': "c' \<in> set (collisions_gdf an)" "label c = label c'" "?near c'"
      by blast
    with inj c have "c = c'" by (auto dest: inj_onD)
    with c c' show "c \<in> set (collisions_gdf an) \<and> ?near c" by simp
  next
    assume "c \<in> set (collisions_gdf an) \<and> ?near c"
    then have "c \<in> set (collisions_gdf an)" "label c \<in> ?N" by blast+
    then show "c \<in> set (map row res)"
      unfolding rows set_loc using fin by simp
  qed
  have "distinct (map label (map row res))"
    unfolding rows by (rule distinct_loc[OF assms(1)]) simp
  then have dl: "distinct (map (\<lambda>m. label (row m)) res)" by (simp add: comp_def)
  from \<open>distinct (map label (map row res))\<close> have "distinct (map row res)"
    by (rule distinct_map[THEN iffD1, THEN conjunct1])
  then have once: "\<forall>c \<in> set (map row res). count_list (map row res) c = 1"
    by (simp add: count_list_distinct)
  from utm mem dl once show ?thesis by blast
qed

theorem find_nearby_collisions_membership_witness:
  "distinct (map label (collisions_gdf example_analyzer))
   \<and> map_sum id (map (\<lambda>m. label (row m)) \<circ> fst)
        (find_nearby_collisions example_gis example_analyzer) = Inr [10, 12]
   \<and> point_distance (to_crs example_gis () (geometry collision_c)) (to_crs example_gis () (0, 0)) \<le> 50
   \<and> point_distance (to_crs example_gis () (geometry collision_c)) (to_crs example_gis () (0, 0.0005)) \<le> 50
   \<and> (\<exists>utm. \<forall>c. c \<in> {collision_a, collision_c} \<longleftrightarrow>
            c \<in> set (collisions_gdf example_analyzer) \<and>
            (\<exists>s \<in> set (sample_points example_analyzer).
               point_distance (to_crs example_gis utm (geometry c)) (to_crs example_gis utm s)
                 \<le> radius example_analyzer))"
proof -
  have d: "distinct (map label (collisions_gdf example_analyzer))"
    by (simp add: example_analyzer_def CollisionAnalyzer_def collision_a_def collision_b_def
      collision_c_def)
  have n: "point_distance (to_crs example_gis () (geometry collision_c)) (to_crs example_gis () (0, 0)) \<le> 50"
      "point_distance (to_crs example_gis () (geometry collision_c)) (to_crs example_gis () (0, 0.0005)) \<le> 50"
    by (simp_all add: example_gis_def collision_c_def point_distance_vertical)
  from find_nearby_collisions_membership[OF d example_find_nearby_collisions] d n
  show ?thesis
    unfolding example_find_nearby_collisions by (simp add: collision_a_def collision_c_def) 
qed

lemma point_distance_gt_iff:
  "0 \<le> r \<Longrightarrow> r < point_distance p q \<longleftrightarrow> r\<^sup>2 < (fst p - fst q)\<^sup>2 + (snd p - snd q)\<^sup>2"
  using point_distance_le_iff[of r p q] by (simp add: not_le[symmetric])

lemma int64_of_str_10: "int64_of_str ''10'' = Inr 10"
  by (simp add: int64_of_str_def int_of_str_def strip_def is_space_def is_digit_def digit_value_def)

text \<open>
  C1 as stated fails: the matcher collects the index labels of the collisions within the
  radius and returns every row that carries one of them. In a frame where a collision 30
  metres from a sample point and a collision 500 metres from the road carry the same
  label, both are returned, though the second is more than 50 metres from every sample
  point.
\<close>

theorem find_nearby_collisions_membership_counterexample:
  "map_sum id (map row \<circ> fst) (find_nearby_collisions example_gis duplicate_label_analyzer)
     = Inr [collision_a, collision_far]
   \<and> collisions_gdf duplicate_label_analyzer = [collision_a, collision_far]
   \<and> label collision_a = label collision_far
   \<and> sample_points duplicate_label_analyzer = [(0, 0), (0, 0.0005)]
   \<and> radius duplicate_label_analyzer = 50
   \<and> 50 < point_distance (to_crs example_gis () (geometry collision_far))
             (to_crs example_gis () (0, 0))
   \<and> 50 < point_distance (to_crs example_gis () (geometry collision_far))
             (to_crs example_gis () (0, 0.0005))"
proof -
  have e: "estimate_utm_crs example_gis (sample_points duplicate_label_analyzer) = Inr ()"
    by (simp add: example_gis_def duplicate_label_analyzer_def CollisionAnalyzer_def)
  have n: "{l. \<exists>c \<in> set (collisions_gdf duplicate_label_analyzer). l = label c \<and>
         (\<exists>s \<in> set (sample_points duplicate_label_analyzer).
            point_distance (to_crs example_gis () (geometry c)) (to_crs example_gis () s)
              \<le> radius duplicate_label_analyzer)} = {10}"
    by (auto simp: duplicate_label_analyzer_def CollisionAnalyzer_def example_gis_def
      collision_a_def collision_far_def point_distance_le_iff power2_eq_square)
  have l: "loc label (collisions_gdf duplicate_label_analyzer) (sorted_list_of_set {10}) =
      [collision_a, collision_far]"
    by (simp add: loc_def duplicate_label_analyzer_def CollisionAnalyzer_def collision_a_def
      collision_far_def)
  have t: "split_first (time collision_a) = ''17''" "split_first (time collision_far) = ''10''"
    by (simp_all add: split_first_def collision_a_def collision_far_def)
  have f: "map_sum id (map row \<circ> fst) (find_nearby_collisions example_gis duplicate_label_analyzer)
     = Inr [collision_a, collision_far]"
    unfolding find_nearby_collisions_unfold[OF e example_gis_nonempty[OF e]] n l Let_def
    by (simp add: add_mapped_columns_def t int64_of_str_17 int64_of_str_10)
  have far: "50 < point_distance (to_crs example_gis () (geometry collision_far))
             (to_crs example_gis () (0, 0))"
    "50 < point_distance (to_crs example_gis () (geometry collision_far))
             (to_crs example_gis () (0, 0.0005))"
    by (simp_all add: example_gis_def collision_far_def point_distance_gt_iff power2_eq_square)
  have rest: "collisions_gdf duplicate_label_analyzer = [collision_a, collision_far]"
    "label collision_a = label collision_far"
    "sample_points duplicate_label_analyzer = [(0, 0), (0, 0.0005)]"
    "radius duplicate_label_analyzer = 50"
    by (simp_all add: duplicate_label_analyzer_def CollisionAnalyzer_def collision_a_def
      collision_far_def)
  from f far rest show ?thesis by (intro conjI)
qed

section \<open>The distance to the road\<close>





lemma on_segment_start: "on_segment a a b"
  by (simp add: on_segment_def)

lemma on_segment_end: "on_segment b a b"
proof (cases "(fst b - fst a)\<^sup>2 + (snd b - snd a)\<^sup>2 = 0")
  case True
  then have "fst b - fst a = 0 \<and> snd b - snd a = 0"
    by (simp add: sum_power2_eq_zero_iff)
  with True show ?thesis by (simp add: on_segment_def)
next
  case False
  then show ?thesis by (simp add: on_segment_def Let_def power2_eq_square)
qed

lemma on_segment_scaled:
  fixes dx dy r :: real
  assumes "0 < dx\<^sup>2 + dy\<^sup>2" "0 \<le> r" "r \<le> 1"
  shows "on_segment (fst a + r * dx, snd a + r * dy) a (fst a + dx, snd a + dy)"
proof -
  have dot: "r * dx * dx + r * dy * dy = r * (dx\<^sup>2 + dy\<^sup>2)"
    by (simp add: power2_eq_square algebra_simps)
  have lo: "0 \<le> r * (dx\<^sup>2 + dy\<^sup>2)" using assms by simp
  have hi: "r * (dx\<^sup>2 + dy\<^sup>2) \<le> dx\<^sup>2 + dy\<^sup>2"
    using assms by (simp add: mult_left_le_one_le)
  have ne: "dx\<^sup>2 + dy\<^sup>2 \<noteq> 0" using assms(1) by (metis less_irrefl)
  show ?thesis
    unfolding on_segment_def Let_def using ne lo hi by (simp add: dot)
qed

lemma on_segment_between:
  assumes "0 < d" "d < point_distance a b"
  shows "on_segment (fst a + (d / point_distance a b) * (fst b - fst a),
                     snd a + (d / point_distance a b) * (snd b - snd a)) a b"
proof -
  define dx dy where "dx = fst b - fst a" and "dy = snd b - snd a"
  have l: "0 < point_distance a b" using assms by simp
  have "point_distance a b = sqrt (dx\<^sup>2 + dy\<^sup>2)"
    by (simp add: dx_def dy_def point_distance_def power2_commute)
  with l have Lpos: "0 < dx\<^sup>2 + dy\<^sup>2" by (simp only: real_sqrt_gt_0_iff)
  have r: "0 \<le> d / point_distance a b" "d / point_distance a b \<le> 1" using assms l by simp_all
  have b: "b = (fst a + dx, snd a + dy)" by (simp add: dx_def dy_def prod_eq_iff)
  from on_segment_scaled[OF Lpos r, of a] show ?thesis
    by (simp add: dx_def dy_def)
qed

lemma interpolate_forward_on_line:
  "2 \<le> length ps \<Longrightarrow> on_line (interpolate_forward ps d) ps"
proof (induction ps d rule: interpolate_forward.induct)
  case (1 a b ps d)
  show ?case
  proof (cases "d \<le> 0")
    case True
    then show ?thesis by (simp add: on_segment_start)
  next
    case False
    note pos = this
    show ?thesis
    proof (cases "d < point_distance a b")
      case True
      with pos show ?thesis using on_segment_between[of d a b] by (simp add: Let_def)
    next
      case False
      note far = this
      show ?thesis
      proof (cases "ps = []")
        case True
        with pos far show ?thesis by (simp add: Let_def on_segment_end)
      next
        case False
        then have "2 \<le> length (b # ps)" by (cases ps) simp_all
        with "1.IH"[OF refl pos far False] have "on_line (interpolate_forward (b # ps) (d - point_distance a b)) (b # ps)"
          by simp
        with pos far False show ?thesis by (simp add: Let_def)
      qed
    qed
  qed
qed simp_all

lemma interpolate_on_line: "2 \<le> length ps \<Longrightarrow> on_line (interpolate ps d) ps"
  by (simp add: interpolate_def interpolate_forward_on_line)






section \<open>Decoding the matched rows\<close>

lemma map_zip_fst: "map (\<lambda>(c, d). h c) (zip xs (map f xs)) = map h xs"
  by (induction xs) simp_all

text \<open>
  C6, as amended. The hours of all matched rows are converted in one column operation,
  outside any handler. When the frame of the sample points is found and a collision
  within the radius of some sample point has a time whose hour does not convert to a
  64-bit integer, \<open>find_nearby_collisions\<close> raises (\<open>ValueError\<close> or \<open>OverflowError\<close>)
  and returns no row at all.
\<close>

theorem find_nearby_collisions_malformed_time:
  assumes "estimate_utm_crs g (sample_points an) = Inr utm"
    and "c \<in> set (collisions_gdf an)"
    and "s \<in> set (sample_points an)"
    and "point_distance (to_crs g utm (geometry c)) (to_crs g utm s) \<le> radius an"
    and "int64_of_str (split_first (time c)) = Inl e"
  shows "find_nearby_collisions g an = Inl ValueError
       \<or> find_nearby_collisions g an = Inl OverflowError"
proof -
  let ?N = "{l. \<exists>c \<in> set (collisions_gdf an). l = label c \<and>
                     (\<exists>s \<in> set (sample_points an).
                        point_distance (to_crs g utm (geometry c)) (to_crs g utm s) \<le> radius an)}"
  let ?nearby = "loc label (collisions_gdf an) (sorted_list_of_set ?N)"
  let ?f = "\<lambda>c :: collision. line_distance (to_crs g utm (geometry c)) (map (to_crs g utm) (road_line an))"
  have ne: "sample_points an \<noteq> []" using assms(3) by auto
  have "label c \<in> ?N" using assms(2-4) by blast
  then have "c \<in> set ?nearby"
    unfolding set_loc using assms(2) finite_nearby_indices by simp
  then have "split_first (time c) \<in> set (map (\<lambda>c. split_first (time c)) ?nearby)"
    by simp
  from astype_int_error[OF this assms(5)] obtain e'
    where e': "astype_int (map (\<lambda>c. split_first (time c)) ?nearby) = Inl e'" by blast
  then have "add_mapped_columns (zip ?nearby (map ?f ?nearby)) = Inl e'"
    by (simp add: add_mapped_columns_def map_zip_fst)
  then have "find_nearby_collisions g an = Inl e'"
    unfolding find_nearby_collisions_unfold[OF assms(1) ne] Let_def by simp
  with astype_int_errors[OF e'] show ?thesis by auto
qed

lemma int64_of_str_ab: "int64_of_str ''ab'' = Inl ValueError"
  by (simp add: int64_of_str_def int_of_str_def strip_def is_space_def is_digit_def)

theorem find_nearby_collisions_malformed_time_witness:
  "estimate_utm_crs example_gis (sample_points malformed_time_analyzer) = Inr ()
   \<and> collision_d \<in> set (collisions_gdf malformed_time_analyzer)
   \<and> (0, 0) \<in> set (sample_points malformed_time_analyzer)
   \<and> point_distance (to_crs example_gis () (geometry collision_d)) (to_crs example_gis () (0, 0))
        \<le> radius malformed_time_analyzer
   \<and> int64_of_str (split_first (time collision_d)) = Inl ValueError
   \<and> (find_nearby_collisions example_gis malformed_time_analyzer = Inl ValueError
       \<or> find_nearby_collisions example_gis malformed_time_analyzer = Inl OverflowError)"
proof -
  have e: "estimate_utm_crs example_gis (sample_points malformed_time_analyzer) = Inr ()"
    by (simp add: example_gis_def malformed_time_analyzer_def CollisionAnalyzer_def)
  have c: "collision_d \<in> set (collisions_gdf malformed_time_analyzer)"
    and s: "(0, 0) \<in> set (sample_points malformed_time_analyzer)"
    by (simp_all add: malformed_time_analyzer_def CollisionAnalyzer_def)
  have d: "point_distance (to_crs example_gis () (geometry collision_d)) (to_crs example_gis () (0, 0))
        \<le> radius malformed_time_analyzer"
    by (simp add: malformed_time_analyzer_def CollisionAnalyzer_def example_gis_def collision_d_def
      point_distance_vertical)
  have t: "int64_of_str (split_first (time collision_d)) = Inl ValueError"
    by (simp add: split_first_def collision_d_def int64_of_str_ab)
  from find_nearby_collisions_malformed_time[OF e c s d t] e c s d t show ?thesis by simp
qed

text \<open>
  C6 as stated fails: of two collisions within the radius, one with the well-formed time
  \<open>17:42\<close> and one with the time \<open>ab:cd\<close>, neither is returned; the whole match raises
  \<open>ValueError\<close>.
\<close>

theorem find_nearby_collisions_malformed_time_counterexample:
  "find_nearby_collisions example_gis malformed_time_analyzer = Inl ValueError
   \<and> collisions_gdf malformed_time_analyzer = [collision_a, collision_d]
   \<and> int64_of_str (split_first (time collision_a)) = Inr 17
   \<and> point_distance (to_crs example_gis () (geometry collision_a)) (to_crs example_gis () (0, 0))
        \<le> radius malformed_time_analyzer"
proof -
  have e: "estimate_utm_crs example_gis (sample_points malformed_time_analyzer) = Inr ()"
    by (simp add: example_gis_def malformed_time_analyzer_def CollisionAnalyzer_def)
  have n: "{l. \<exists>c \<in> set (collisions_gdf malformed_time_analyzer). l = label c \<and>
         (\<exists>s \<in> set (sample_points malformed_time_analyzer).
            point_distance (to_crs example_gis () (geometry c)) (to_crs example_gis () s)
              \<le> radius malformed_time_analyzer)} = {10, 13}"
    by (auto simp: malformed_time_analyzer_def CollisionAnalyzer_def example_gis_def collision_a_def
      collision_d_def point_distance_le_iff power2_eq_square)
  have l: "loc label (collisions_gdf malformed_time_analyzer) (sorted_list_of_set {10, 13}) =
      [collision_a, collision_d]"
    by (simp add: loc_def malformed_time_analyzer_def CollisionAnalyzer_def collision_a_def
      collision_d_def)
  have t: "split_first (time collision_a) = ''17''" "split_first (time collision_d) = ''ab''"
    by (simp_all add: split_first_def collision_a_def collision_d_def)
  have "find_nearby_collisions example_gis malformed_time_analyzer = Inl ValueError"
    unfolding find_nearby_collisions_unfold[OF e example_gis_nonempty[OF e]] n l Let_def
    by (simp add: add_mapped_columns_def t int64_of_str_17 int64_of_str_ab)
  moreover have "point_distance (to_crs example_gis () (geometry collision_a)) (to_crs example_gis () (0, 0))
        \<le> radius malformed_time_analyzer"
    by (simp add: malformed_time_analyzer_def CollisionAnalyzer_def example_gis_def collision_a_def
      point_distance_horizontal)
  ultimately show ?thesis
    by (simp add: t int64_of_str_17) (simp add: malformed_time_analyzer_def CollisionAnalyzer_def)
qed

text \<open>
  C7, as amended. Decoding the codes never fails: \<open>_add_mapped_columns\<close> returns whenever
  the hours convert. Each name is the entry of its lookup table for the code, and a code
  that is not a key of the table gives a missing value, not a label. The labels
  \<open>Data missing\<close> and \<open>Unknown\<close> are the entries of the keys \<open>-1\<close> (weather and light)
  and \<open>9\<close> (weather).
\<close>

theorem add_mapped_columns_unknown_codes:
  assumes "astype_int (map (\<lambda>(c, d). split_first (time c)) rows) = Inr hours"
  shows "\<exists>res. add_mapped_columns rows = Inr res
     \<and> length res = length rows
     \<and> (\<forall>i < length rows.
          row (res ! i) = fst (rows ! i)
        \<and> severity_name (res ! i) = SEVERITY_MAP (collision_severity (fst (rows ! i)))
        \<and> day_name (res ! i) = DAY_MAP (day_of_week (fst (rows ! i)))
        \<and> weather_name (res ! i) = WEATHER_MAP (weather_conditions (fst (rows ! i)))
        \<and> light_name (res ! i) = LIGHT_MAP (light_conditions (fst (rows ! i)))
        \<and> (collision_severity (fst (rows ! i)) \<notin> {1, 2, 3} \<longrightarrow> severity_name (res ! i) = None)
        \<and> (day_of_week (fst (rows ! i)) \<notin> {1, 2, 3, 4, 5, 6, 7} \<longrightarrow> day_name (res ! i) = None)
        \<and> (weather_conditions (fst (rows ! i)) \<notin> {- 1, 1, 2, 3, 4, 5, 6, 7, 8, 9}
             \<longrightarrow> weather_name (res ! i) = None)
        \<and> (light_conditions (fst (rows ! i)) \<notin> {- 1, 1, 4, 5, 6, 7} \<longrightarrow> light_name (res ! i) = None)
        \<and> (weather_conditions (fst (rows ! i)) = - 1 \<longrightarrow> weather_name (res ! i) = Some ''Data missing'')
        \<and> (weather_conditions (fst (rows ! i)) = 9 \<longrightarrow> weather_name (res ! i) = Some ''Unknown'')
        \<and> (light_conditions (fst (rows ! i)) = - 1 \<longrightarrow> light_name (res ! i) = Some ''Data missing''))"
proof -
  define res where "res = map (\<lambda>((c, d), h).
                 \<lparr>row = c, distance_to_road_m = d,
                  severity_name = SEVERITY_MAP (collision_severity c),
                  day_name = DAY_MAP (day_of_week c),
                  weather_name = WEATHER_MAP (weather_conditions c),
                  light_name = LIGHT_MAP (light_conditions c),
                  hour = h\<rparr>) (zip rows hours)"
  have add: "add_mapped_columns rows = Inr res"
    using assms by (simp add: add_mapped_columns_def res_def)
  have len: "length hours = length rows" using astype_int_length[OF assms] by simp
  then have lres: "length res = length rows" by (simp add: res_def)
  have at: "res ! i = \<lparr>row = fst (rows ! i), distance_to_road_m = snd (rows ! i),
                  severity_name = SEVERITY_MAP (collision_severity (fst (rows ! i))),
                  day_name = DAY_MAP (day_of_week (fst (rows ! i))),
                  weather_name = WEATHER_MAP (weather_conditions (fst (rows ! i))),
                  light_name = LIGHT_MAP (light_conditions (fst (rows ! i))),
                  hour = hours ! i\<rparr>" if "i < length rows" for i
    using that len by (simp add: res_def case_prod_beta)
  have sev: "SEVERITY_MAP k = None" if "k \<notin> {1, 2, 3}" for k
    using that by (simp add: SEVERITY_MAP_def)
  have day: "DAY_MAP k = None" if "k \<notin> {1, 2, 3, 4, 5, 6, 7}" for k
    using that by (simp add: DAY_MAP_def)
  have wea: "WEATHER_MAP k = None" if "k \<notin> {- 1, 1, 2, 3, 4, 5, 6, 7, 8, 9}" for k
    using that by (simp add: WEATHER_MAP_def)
  have lig: "LIGHT_MAP k = None" if "k \<notin> {- 1, 1, 4, 5, 6, 7}" for k
    using that by (simp add: LIGHT_MAP_def)
  have known: "WEATHER_MAP (- 1) = Some ''Data missing''" "WEATHER_MAP 9 = Some ''Unknown''"
    "LIGHT_MAP (- 1) = Some ''Data missing''"
    by (simp_all add: WEATHER_MAP_def LIGHT_MAP_def)
  have each: "row (res ! i) = fst (rows ! i)
        \<and> severity_name (res ! i) = SEVERITY_MAP (collision_severity (fst (rows ! i)))
        \<and> day_name (res ! i) = DAY_MAP (day_of_week (fst (rows ! i)))
        \<and> weather_name (res ! i) = WEATHER_MAP (weather_conditions (fst (rows ! i)))
        \<and> light_name (res ! i) = LIGHT_MAP (light_conditions (fst (rows ! i)))
        \<and> (collision_severity (fst (rows ! i)) \<notin> {1, 2, 3} \<longrightarrow> severity_name (res ! i) = None)
        \<and> (day_of_week (fst (rows ! i)) \<notin> {1, 2, 3, 4, 5, 6, 7} \<longrightarrow> day_name (res ! i) = None)
        \<and> (weather_conditions (fst (rows ! i)) \<notin> {- 1, 1, 2, 3, 4, 5, 6, 7, 8, 9}
             \<longrightarrow> weather_name (res ! i) = None)
        \<and> (light_conditions (fst (rows ! i)) \<notin> {- 1, 1, 4, 5, 6, 7} \<longrightarrow> light_name (res ! i) = None)
        \<and> (weather_conditions (fst (rows ! i)) = - 1 \<longrightarrow> weather_name (res ! i) = Some ''Data missing'')
        \<and> (weather_conditions (fst (rows ! i)) = 9 \<longrightarrow> weather_name (res ! i) = Some ''Unknown'')
        \<and> (light_conditions (fst (rows ! i)) = - 1 \<longrightarrow> light_name (res ! i) = Some ''Data missing'')"
    if i: "i < length rows" for i
  proof -
    let ?c = "fst (rows ! i)"
    have a: "row (res ! i) = ?c"
      "severity_name (res ! i) = SEVERITY_MAP (collision_severity ?c)"
      "day_name (res ! i) = DAY_MAP (day_of_week ?c)"
      "weather_name (res ! i) = WEATHER_MAP (weather_conditions ?c)"
      "light_name (res ! i) = LIGHT_MAP (light_conditions ?c)"
      unfolding at[OF i] by simp_all
    have b: "collision_severity ?c \<notin> {1, 2, 3} \<longrightarrow> severity_name (res ! i) = None"
      "day_of_week ?c \<notin> {1, 2, 3, 4, 5, 6, 7} \<longrightarrow> day_name (res ! i) = None"
      "weather_conditions ?c \<notin> {- 1, 1, 2, 3, 4, 5, 6, 7, 8, 9} \<longrightarrow> weather_name (res ! i) = None"
      "light_conditions ?c \<notin> {- 1, 1, 4, 5, 6, 7} \<longrightarrow> light_name (res ! i) = None"
      unfolding a using sev day wea lig by blast+
    have c: "weather_conditions ?c = - 1 \<longrightarrow> weather_name (res ! i) = Some ''Data missing''"
      "weather_conditions ?c = 9 \<longrightarrow> weather_name (res ! i) = Some ''Unknown''"
      "light_conditions ?c = - 1 \<longrightarrow> light_name (res ! i) = Some ''Data missing''"
      unfolding a using known by simp_all
    from a b c show ?thesis by (intro conjI)
  qed
  from add lres each show ?thesis by blast
qed

lemma example_add_mapped_columns:
  "add_mapped_columns [(collision_c, 0)] =
     Inr [\<lparr>row = collision_c, distance_to_road_m = 0, severity_name = None,
            day_name = None, weather_name = None, light_name = None, hour = 8\<rparr>]"
proof -
  have t: "split_first (time collision_c) = ''08''"
    by (simp add: split_first_def collision_c_def)
  have s: "SEVERITY_MAP (collision_severity collision_c) = None"
      "DAY_MAP (day_of_week collision_c) = None"
      "WEATHER_MAP (weather_conditions collision_c) = None"
      "LIGHT_MAP (light_conditions collision_c) = None"
    by (simp_all add: SEVERITY_MAP_def DAY_MAP_def WEATHER_MAP_def LIGHT_MAP_def collision_c_def)
  show ?thesis
    by (simp add: add_mapped_columns_def t s int64_of_str_08)
qed

theorem add_mapped_columns_unknown_codes_witness:
  "astype_int (map (\<lambda>(c, d). split_first (time c)) [(collision_c, 0)]) = Inr [8]
   \<and> collision_severity collision_c = 4
   \<and> (\<exists>res. add_mapped_columns [(collision_c, 0)] = Inr res
        \<and> row (res ! 0) = collision_c
        \<and> severity_name (res ! 0) = None)"
proof -
  have h: "astype_int (map (\<lambda>(c, d). split_first (time c)) [(collision_c, 0 :: real)]) = Inr [8]"
    by (simp add: split_first_def collision_c_def int64_of_str_08)
  have s: "collision_severity collision_c = 4" by (simp add: collision_c_def)
  from add_mapped_columns_unknown_codes[OF h]
  have "\<exists>res. add_mapped_columns [(collision_c, 0)] = Inr res
        \<and> row (res ! 0) = collision_c
        \<and> (collision_severity collision_c \<notin> {1, 2, 3} \<longrightarrow> severity_name (res ! 0) = None)"
    by (elim exE conjE, rule_tac x = res in exI) simp
  with h s show ?thesis by simp
qed

text \<open>
  C7 as stated fails: a collision with severity 4, day 8, weather 0 and light 2, codes
  that are in none of the tables, gets four missing names.
\<close>

theorem add_mapped_columns_unknown_codes_counterexample:
  "map_sum id (map (\<lambda>m. (severity_name m, day_name m, weather_name m, light_name m)))
     (add_mapped_columns [(collision_c, 0)]) = Inr [(None, None, None, None)]
   \<and> collision_severity collision_c = 4 \<and> day_of_week collision_c = 8
   \<and> weather_conditions collision_c = 0 \<and> light_conditions collision_c = 2"
  unfolding example_add_mapped_columns by (simp add: collision_c_def)

section \<open>The statistics\<close>

lemma calculate_statistics_raise:
  assumes "(case nearby_collisions an of
              None \<Rightarrow> find_nearby_collisions g an
            | Some nc \<Rightarrow> Inr (nc, an)) = Inl e"
  shows "calculate_statistics g an = Inl e"
  using assms by (simp add: calculate_statistics_def)

lemma calculate_statistics_no_sample_points:
  assumes "(case nearby_collisions an of
              None \<Rightarrow> find_nearby_collisions g an
            | Some nc \<Rightarrow> Inr (nc, an)) = Inr (nc, an1)"
    and "sample_points an1 = []"
  shows "calculate_statistics g an = Inl ZeroDivisionError"
  using assms by (simp add: calculate_statistics_def truediv_def Let_def)

lemma calculate_statistics_return:
  assumes "(case nearby_collisions an of
              None \<Rightarrow> find_nearby_collisions g an
            | Some nc \<Rightarrow> Inr (nc, an)) = Inr (nc, an1)"
    and "sample_points an1 \<noteq> []"
  shows "\<exists>st. calculate_statistics g an = Inr (st, an1\<lparr>statistics := Some st\<rparr>)
     \<and> total_collisions (stats_summary st) = length nc
     \<and> total_casualties (stats_summary st) = sum_list (map (\<lambda>m. number_of_casualties (row m)) nc)
     \<and> avg_casualties_per_collision (stats_summary st) =
         (if length nc > 0
          then real_of_int (sum_list (map (\<lambda>m. number_of_casualties (row m)) nc)) / real (length nc)
          else 0)
     \<and> collisions_per_sample_point (stats_summary st) =
         real (length nc) / real (length (sample_points an1))
     \<and> stats_severity st = breakdown (length nc) (map severity_name nc)
     \<and> stats_day_of_week st = breakdown (length nc) (map day_name nc)
     \<and> stats_weather st = breakdown (length nc) (map weather_name nc)
     \<and> stats_light st = breakdown (length nc) (map light_name nc)
     \<and> most_common_hour (stats_time st) =
         (if length nc > 0 then Some (hd (mode (map hour nc))) else None)"
  using assms by (simp add: calculate_statistics_def truediv_def Let_def)

lemma find_nearby_collisions_state:
  assumes "find_nearby_collisions g an = Inr (res, an1)"
  shows "sample_points an1 = sample_points an" and "nearby_collisions an1 = Some res"
  using find_nearby_collisions_Inr[OF assms] by auto

lemma nearby_source_state:
  assumes "(case nearby_collisions an of
              None \<Rightarrow> find_nearby_collisions g an
            | Some nc \<Rightarrow> Inr (nc, an)) = Inr (nc, an1)"
  shows "sample_points an1 = sample_points an" and "nearby_collisions an1 = Some nc"
  using assms find_nearby_collisions_state[of g an nc an1]
  by (auto split: option.splits)

lemma calculate_statistics_state:
  assumes "calculate_statistics g an = Inr (st, an')"
  shows "sample_points an \<noteq> []" and "sample_points an' = sample_points an"
    and "\<exists>nc. nearby_collisions an' = Some nc"
    and "collisions_per_sample_point (stats_summary st) =
           real (total_collisions (stats_summary st)) / real (length (sample_points an))"
proof -
  have "sample_points an \<noteq> [] \<and> sample_points an' = sample_points an
      \<and> (\<exists>nc. nearby_collisions an' = Some nc)
      \<and> collisions_per_sample_point (stats_summary st) =
           real (total_collisions (stats_summary st)) / real (length (sample_points an))"
  proof (cases "case nearby_collisions an of
              None \<Rightarrow> find_nearby_collisions g an
            | Some nc \<Rightarrow> Inr (nc, an)")
    case (Inl e)
    from calculate_statistics_raise[OF this] assms show ?thesis by simp
  next
    case (Inr x)
    obtain nc an1 where x: "x = (nc, an1)" by (cases x)
    note src = Inr[unfolded x]
    note state = nearby_source_state[OF src]
    have ne: "sample_points an1 \<noteq> []"
    proof
      assume "sample_points an1 = []"
      from calculate_statistics_no_sample_points[OF src this] assms show False by simp
    qed
    from calculate_statistics_return[OF src ne] assms
    have st: "an' = an1\<lparr>statistics := Some st\<rparr>"
      "total_collisions (stats_summary st) = length nc"
      "collisions_per_sample_point (stats_summary st) =
         real (length nc) / real (length (sample_points an1))"
      by auto
    show ?thesis using st state ne by simp
  qed
  then show "sample_points an \<noteq> []" and "sample_points an' = sample_points an"
    and "\<exists>nc. nearby_collisions an' = Some nc"
    and "collisions_per_sample_point (stats_summary st) =
           real (total_collisions (stats_summary st)) / real (length (sample_points an))"
    by simp_all
qed

lemma reachable_sample_points:
  "reachable g an \<Longrightarrow> nearby_collisions an \<noteq> None \<Longrightarrow> sample_points an \<noteq> []"
proof (induction rule: reachable.induct)
  case (constructed collisions points line r)
  then show ?case by (simp add: CollisionAnalyzer_def)
next
  case (found an res an')
  from find_nearby_collisions_Inr[OF found(2)] show ?case by auto
next
  case (calculated an st an')
  from calculate_statistics_state(1,2)[OF calculated(2)] show ?case by simp
qed

text \<open>
  C8. On every state of the analyzer, when the matched set is empty (already stored in
  \<open>nearby_collisions\<close>, or returned empty by \<open>find_nearby_collisions\<close>),
  \<open>calculate_statistics\<close> returns, and the four summary scalars are 0; the breakdowns
  are empty and there is no most common hour.
\<close>

theorem calculate_statistics_empty_match:
  assumes "reachable g an"
    and "nearby_collisions an = Some []
       \<or> (nearby_collisions an = None \<and> (\<exists>an1. find_nearby_collisions g an = Inr ([], an1)))"
  shows "\<exists>st an'. calculate_statistics g an = Inr (st, an')
     \<and> total_collisions (stats_summary st) = 0
     \<and> total_casualties (stats_summary st) = 0
     \<and> avg_casualties_per_collision (stats_summary st) = 0
     \<and> collisions_per_sample_point (stats_summary st) = 0
     \<and> stats_severity st = [] \<and> stats_day_of_week st = []
     \<and> stats_weather st = [] \<and> stats_light st = []
     \<and> most_common_hour (stats_time st) = None"
proof -
  from assms(2) obtain an1 where src: "(case nearby_collisions an of
              None \<Rightarrow> find_nearby_collisions g an
            | Some nc \<Rightarrow> Inr (nc, an)) = Inr ([], an1)"
    by auto
  have "sample_points an \<noteq> []"
  proof (cases "nearby_collisions an")
    case None
    with assms(2) obtain an2 where "find_nearby_collisions g an = Inr ([], an2)" by auto
    from find_nearby_collisions_Inr[OF this] show ?thesis by auto
  next
    case (Some nc)
    with reachable_sample_points[OF assms(1)] show ?thesis by simp
  qed
  with nearby_source_state(1)[OF src] have ne: "sample_points an1 \<noteq> []" by simp
  have b: "breakdown 0 [] = []" by (simp add: breakdown_def value_counts_def dropna_def)
  from calculate_statistics_return[OF src ne] show ?thesis
    by (auto simp: b)
qed

theorem calculate_statistics_empty_match_witness:
  "reachable example_gis
     (CollisionAnalyzer [collision_b] [(0, 0), (0, 0.0005)] [(0, 0), (0, 0.001)] 50)
   \<and> map_sum id fst (find_nearby_collisions example_gis
        (CollisionAnalyzer [collision_b] [(0, 0), (0, 0.0005)] [(0, 0), (0, 0.001)] 50)) = Inr []
   \<and> (\<exists>st an'. calculate_statistics example_gis
         (CollisionAnalyzer [collision_b] [(0, 0), (0, 0.0005)] [(0, 0), (0, 0.001)] 50) = Inr (st, an')
       \<and> total_collisions (stats_summary st) = 0
       \<and> total_casualties (stats_summary st) = 0
       \<and> avg_casualties_per_collision (stats_summary st) = 0
       \<and> collisions_per_sample_point (stats_summary st) = 0)"
proof -
  let ?an = "CollisionAnalyzer [collision_b] [(0, 0), (0, 0.0005)] [(0, 0), (0, 0.001)] 50"
  have r: "reachable example_gis ?an" by (rule reachable.constructed)
  have e: "estimate_utm_crs example_gis (sample_points ?an) = Inr ()"
    by (simp add: example_gis_def CollisionAnalyzer_def)
  have n: "{l. \<exists>c \<in> set (collisions_gdf ?an). l = label c \<and>
         (\<exists>s \<in> set (sample_points ?an).
            point_distance (to_crs example_gis () (geometry c)) (to_crs example_gis () s)
              \<le> radius ?an)} = {}"
    by (auto simp: CollisionAnalyzer_def example_gis_def collision_b_def point_distance_le_iff
      power2_eq_square)
  have f: "find_nearby_collisions example_gis ?an = Inr ([], ?an\<lparr>nearby_collisions := Some []\<rparr>)"
    unfolding find_nearby_collisions_unfold[OF e example_gis_nonempty[OF e]] n Let_def
    by (simp add: loc_def add_mapped_columns_def)
  have none: "nearby_collisions ?an = None" by (simp add: CollisionAnalyzer_def)
  have h: "nearby_collisions ?an = Some []
       \<or> (nearby_collisions ?an = None \<and> (\<exists>an1. find_nearby_collisions example_gis ?an = Inr ([], an1)))"
    using none f by blast
  from calculate_statistics_empty_match[OF r h]
  have "\<exists>st an'. calculate_statistics example_gis ?an = Inr (st, an')
       \<and> total_collisions (stats_summary st) = 0
       \<and> total_casualties (stats_summary st) = 0
       \<and> avg_casualties_per_collision (stats_summary st) = 0
       \<and> collisions_per_sample_point (stats_summary st) = 0"
    by (elim exE conjE, rule_tac x = st in exI, rule_tac x = an' in exI) simp
  with r f show ?thesis by simp
qed

text \<open>
  C10, as amended. The ratio \<open>total_collisions / len(self.sample_points)\<close> has no guard of
  its own: on a record that holds a matched set and no sample point it raises
  \<open>ZeroDivisionError\<close>. No state of the analyzer is such a record. With an empty set of
  sample points (which the sampler returns for every road whose truncated length is 0,
  with an interval other than 0) no matched set is stored, \<open>find_nearby_collisions\<close>
  raises \<open>ValueError\<close> when it estimates the frame, and \<open>calculate_statistics\<close> raises that
  \<open>ValueError\<close>. A \<open>ZeroDivisionError\<close> of \<open>calculate_statistics\<close> is never the ratio's: it
  is one that \<open>find_nearby_collisions\<close> raised with sample points present. Whenever
  \<open>calculate_statistics\<close> returns there is a sample point, and the ratio is the number of
  matched collisions over the number of sample points.
\<close>

theorem calculate_statistics_needs_sample_point:
  fixes g :: "'crs gis" and g' :: "'crs2 gis"
  assumes "reachable g an"
  shows "(sample_points an = [] \<longrightarrow>
            nearby_collisions an = None
          \<and> find_nearby_collisions g an = Inl ValueError
          \<and> calculate_statistics g an = Inl ValueError)
       \<and> (calculate_statistics g an = Inl ZeroDivisionError \<longrightarrow>
            sample_points an \<noteq> [] \<and> nearby_collisions an = None
          \<and> find_nearby_collisions g an = Inl ZeroDivisionError)
       \<and> (\<forall>st an'. calculate_statistics g an = Inr (st, an') \<longrightarrow>
            sample_points an \<noteq> []
          \<and> collisions_per_sample_point (stats_summary st) =
              real (total_collisions (stats_summary st)) / real (length (sample_points an)))
       \<and> (ensure_projected g' rs = Inr ((utm, line), rs1) \<longrightarrow>
            int_of_float (line_length line) = 0 \<longrightarrow> distance_interval rs \<noteq> 0 \<longrightarrow>
            (\<exists>rs2. generate_sample_points g' rs = Inr ([], rs2)))
       \<and> (\<forall>an0 nc. sample_points an0 = [] \<longrightarrow> nearby_collisions an0 = Some nc \<longrightarrow>
            calculate_statistics g an0 = Inl ZeroDivisionError)"
proof -
  have empty: "nearby_collisions an = None \<and> find_nearby_collisions g an = Inl ValueError
      \<and> calculate_statistics g an = Inl ValueError" if e: "sample_points an = []"
  proof -
    have n: "nearby_collisions an = None"
      using reachable_sample_points[OF assms] e by (cases "nearby_collisions an") auto
    have f: "find_nearby_collisions g an = Inl ValueError"
      using e by (rule find_nearby_collisions_no_sample_points)
    have "calculate_statistics g an = Inl ValueError"
      by (rule calculate_statistics_raise) (simp add: n f)
    with n f show ?thesis by simp
  qed
  have zde: "sample_points an \<noteq> [] \<and> nearby_collisions an = None
      \<and> find_nearby_collisions g an = Inl ZeroDivisionError"
    if z: "calculate_statistics g an = Inl ZeroDivisionError"
  proof -
    have ne: "sample_points an \<noteq> []"
    proof
      assume "sample_points an = []"
      from empty[OF this] z show False by simp
    qed
    show ?thesis
    proof (cases "case nearby_collisions an of
              None \<Rightarrow> find_nearby_collisions g an
            | Some nc \<Rightarrow> Inr (nc, an)")
      case (Inl e)
      from calculate_statistics_raise[OF this] z have e: "e = ZeroDivisionError" by simp
      from Inl have "nearby_collisions an = None \<and> find_nearby_collisions g an = Inl e"
        by (cases "nearby_collisions an") simp_all
      with ne e show ?thesis by simp
    next
      case (Inr x)
      obtain nc an1 where x: "x = (nc, an1)" by (cases x)
      note src = Inr[unfolded x]
      from nearby_source_state(1)[OF src] ne have "sample_points an1 \<noteq> []" by simp
      from calculate_statistics_return[OF src this] z show ?thesis by auto
    qed
  qed
  have ret: "sample_points an \<noteq> []
          \<and> collisions_per_sample_point (stats_summary st) =
              real (total_collisions (stats_summary st)) / real (length (sample_points an))"
    if "calculate_statistics g an = Inr (st, an')" for st an'
    using calculate_statistics_state(1,4)[OF that] by simp
  have sampler: "\<exists>rs2. generate_sample_points g' rs = Inr ([], rs2)"
    if p: "ensure_projected g' rs = Inr ((utm, line), rs1)"
      and z: "int_of_float (line_length line) = 0" and i: "distance_interval rs \<noteq> 0"
  proof -
    have "sample_distances line (distance_interval rs) = Inr []"
      using z i by (simp add: sample_distances_def py_range_def range_up_Nil range_down_Nil)
    from generate_sample_points_unfold[OF p this] show ?thesis by simp
  qed
  have unguarded: "calculate_statistics g an0 = Inl ZeroDivisionError"
    if "sample_points an0 = []" "nearby_collisions an0 = Some nc" for an0 nc
    using that
    by (intro calculate_statistics_no_sample_points[where nc = nc and ?an1.0 = an0]) simp_all
  have c1: "sample_points an = [] \<longrightarrow>
            nearby_collisions an = None
          \<and> find_nearby_collisions g an = Inl ValueError
          \<and> calculate_statistics g an = Inl ValueError"
    by (intro impI) (rule empty)
  have c2: "calculate_statistics g an = Inl ZeroDivisionError \<longrightarrow>
            sample_points an \<noteq> [] \<and> nearby_collisions an = None
          \<and> find_nearby_collisions g an = Inl ZeroDivisionError"
    by (intro impI) (rule zde)
  have c3: "\<forall>st an'. calculate_statistics g an = Inr (st, an') \<longrightarrow>
            sample_points an \<noteq> []
          \<and> collisions_per_sample_point (stats_summary st) =
              real (total_collisions (stats_summary st)) / real (length (sample_points an))"
    by (intro allI impI) (rule ret)
  have c4: "ensure_projected g' rs = Inr ((utm, line), rs1) \<longrightarrow>
            int_of_float (line_length line) = 0 \<longrightarrow> distance_interval rs \<noteq> 0 \<longrightarrow>
            (\<exists>rs2. generate_sample_points g' rs = Inr ([], rs2))"
    by (intro impI) (rule sampler)
  have c5: "\<forall>an0 nc. sample_points an0 = [] \<longrightarrow> nearby_collisions an0 = Some nc \<longrightarrow>
            calculate_statistics g an0 = Inl ZeroDivisionError"
    by (intro allI impI) (rule unguarded)
  from c1 c2 c3 c4 c5 show ?thesis by (intro conjI)
qed

theorem calculate_statistics_needs_sample_point_witness:
  "reachable example_gis empty_analyzer
   \<and> sample_points empty_analyzer = []
   \<and> nearby_collisions empty_analyzer = None
   \<and> find_nearby_collisions example_gis empty_analyzer = Inl ValueError
   \<and> calculate_statistics example_gis empty_analyzer = Inl ValueError
   \<and> int_of_float (line_length [(0, 0), (0, 0.5)]) = 0
   \<and> map_sum id fst (generate_sample_points example_gis (RoadSampler [(0, 0), (0, 0.000005)] 50))
       = Inr []"
proof -
  let ?rs = "RoadSampler [(0, 0), (0, 0.000005)] 50 :: unit road_sampler"
  have r: "reachable example_gis empty_analyzer"
    unfolding empty_analyzer_def by (rule reachable.constructed)
  have s: "sample_points empty_analyzer = []"
    by (simp add: empty_analyzer_def CollisionAnalyzer_def)
  have p: "ensure_projected example_gis ?rs =
     Inr (((), [(0, 0), (0, 0.5)]),
          \<lparr>road_coords = [(0, 0), (0, 0.000005)], distance_interval = 50,
           sampler_road_line = Some [(0, 0), (0, 0.000005)],
           road_projected = Some ((), [(0, 0), (0, 0.5)]),
           sampler_sample_points = None\<rparr>)"
    by (simp add: example_ensure_projected)
  have z: "int_of_float (line_length [(0, 0), (0, 0.5)]) = 0"
    by (simp add: int_of_float_def point_distance_vertical)
  have i: "distance_interval ?rs \<noteq> 0" by (simp add: RoadSampler_def)
  note t = calculate_statistics_needs_sample_point[OF r, where g' = example_gis
      and rs = ?rs and utm = "()" and line = "[(0, 0), (0, 0.5)]"
      and ?rs1.0 = "\<lparr>road_coords = [(0, 0), (0, 0.000005)], distance_interval = 50,
           sampler_road_line = Some [(0, 0), (0, 0.000005)],
           road_projected = Some ((), [(0, 0), (0, 0.5)]),
           sampler_sample_points = None\<rparr>"]
  from t have "sample_points empty_analyzer = [] \<longrightarrow>
        nearby_collisions empty_analyzer = None
      \<and> find_nearby_collisions example_gis empty_analyzer = Inl ValueError
      \<and> calculate_statistics example_gis empty_analyzer = Inl ValueError"
    by (elim conjE)
  with s have a: "nearby_collisions empty_analyzer = None
      \<and> find_nearby_collisions example_gis empty_analyzer = Inl ValueError
      \<and> calculate_statistics example_gis empty_analyzer = Inl ValueError"
    by simp
  from t have "ensure_projected example_gis ?rs =
     Inr (((), [(0, 0), (0, 0.5)]),
          \<lparr>road_coords = [(0, 0), (0, 0.000005)], distance_interval = 50,
           sampler_road_line = Some [(0, 0), (0, 0.000005)],
           road_projected = Some ((), [(0, 0), (0, 0.5)]),
           sampler_sample_points = None\<rparr>) \<longrightarrow>
      int_of_float (line_length [(0, 0), (0, 0.5)]) = 0 \<longrightarrow>
      distance_interval ?rs \<noteq> 0 \<longrightarrow>
      (\<exists>rs2. generate_sample_points example_gis ?rs = Inr ([], rs2))"
    by (elim conjE)
  with p z i have "\<exists>rs2. generate_sample_points example_gis ?rs = Inr ([], rs2)"
    by blast
  then have b: "map_sum id fst (generate_sample_points example_gis ?rs) = Inr []" by auto
  from r s a z b show ?thesis by simp
qed

text \<open>
  C10 as stated fails: a road of half a metre gives no sample point, the analyzer built
  over that empty set has no matched set, and \<open>calculate_statistics\<close> raises the
  \<open>ValueError\<close> of \<open>find_nearby_collisions\<close>, not a \<open>ZeroDivisionError\<close>.
\<close>

theorem calculate_statistics_needs_sample_point_counterexample:
  "map_sum id fst (generate_sample_points example_gis (RoadSampler [(0, 0), (0, 0.000005)] 50))
     = Inr []
   \<and> empty_analyzer = CollisionAnalyzer [collision_b] [] [(0, 0), (0, 0.000005)] 50
   \<and> calculate_statistics example_gis empty_analyzer = Inl ValueError"
proof -
  have d: "sample_distances [(0, 0), (0, 100000 * 0.000005)] 50 = Inr []"
    by (simp add: sample_distances_def py_range_def int_of_float_def point_distance_vertical
      range_up_Nil)
  have a: "map_sum id fst (generate_sample_points example_gis (RoadSampler [(0, 0), (0, 0.000005)] 50))
     = Inr []"
    unfolding example_generate_sample_points[OF d] by simp
  have "find_nearby_collisions example_gis empty_analyzer = Inl ValueError"
    by (rule find_nearby_collisions_no_sample_points)
       (simp add: empty_analyzer_def CollisionAnalyzer_def)
  then have b: "calculate_statistics example_gis empty_analyzer = Inl ValueError"
    by (intro calculate_statistics_raise) (simp add: empty_analyzer_def CollisionAnalyzer_def)
  from a b show ?thesis by (simp add: empty_analyzer_def)
qed

lemma sum_list_insort_key:
  fixes f :: "'a \<Rightarrow> real"
  shows "sum_list (map f (insort_key k x xs)) = f x + sum_list (map f xs)"
  by (induction xs) simp_all

lemma sum_list_sort_key:
  fixes f :: "'a \<Rightarrow> real"
  shows "sum_list (map f (sort_key k xs)) = sum_list (map f xs)"
  by (induction xs) (simp_all add: sum_list_insort_key)

lemma sum_counts_distinct:
  assumes "distinct ds" "set ds = set vals"
  shows "sum_list (map (count_list vals) ds) = length vals"
proof -
  have "sum_list (map (count_list vals) ds) = sum (count_list vals) (set ds)"
    using assms(1) by (rule sum_list_distinct_conv_sum_set)
  also have "\<dots> = length vals"
    unfolding assms(2) by (rule sum_count_set) simp_all
  finally show ?thesis .
qed

lemma sum_list_real:
  "sum_list (map (\<lambda>v. real (h v)) xs) = real (sum_list (map h xs))"
  by (induction xs) simp_all

lemma sum_value_counts:
  "sum_list (map (\<lambda>(v, n). real n) (value_counts col)) = real (length (dropna col))"
proof -
  let ?vals = "dropna col"
  let ?ds = "rev (remdups (rev ?vals))"
  have "sum_list (map (\<lambda>(v, n). real n) (value_counts col))
      = sum_list (map (\<lambda>(v, n). real n) (map (\<lambda>v. (v, count_list ?vals v)) ?ds))"
    by (simp add: value_counts_def Let_def sum_list_sort_key)
  also have "\<dots> = sum_list (map (\<lambda>v. real (count_list ?vals v)) ?ds)"
    by (simp add: comp_def)
  also have "\<dots> = real (sum_list (map (count_list ?vals) ?ds))"
    by (rule sum_list_real)
  also have "sum_list (map (count_list ?vals) ?ds) = length ?vals"
    by (rule sum_counts_distinct) simp_all
  finally show ?thesis .
qed

lemma sum_percentages:
  "sum_list (map (\<lambda>(v, s). percentage s) (breakdown n col))
     = 100 * real (length (dropna col)) / real n"
proof -
  have "sum_list (map (\<lambda>(v, s). percentage s) (breakdown n col))
      = sum_list (map (\<lambda>x. real (snd x) * (100 / real n)) (value_counts col))"
    by (simp add: breakdown_def comp_def case_prod_unfold)
  also have "\<dots> = sum_list (map (\<lambda>x. real (snd x)) (value_counts col)) * (100 / real n)"
    by (rule sum_list_mult_const)
  also have "sum_list (map (\<lambda>x. real (snd x)) (value_counts col)) = real (length (dropna col))"
    using sum_value_counts[of col] by (simp add: case_prod_unfold)
  finally show ?thesis by simp
qed

lemma length_dropna_map:
  "length (dropna (map f xs)) = length (filter (\<lambda>x. f x \<noteq> None) xs)"
  by (simp add: dropna_def filter_map comp_def)

lemma sum_percentages_complete:
  assumes "xs \<noteq> []" "\<forall>x \<in> set xs. f x \<noteq> None"
  shows "sum_list (map (\<lambda>(v, s). percentage s) (breakdown (length xs) (map f xs))) = 100"
proof -
  have "filter (\<lambda>x. f x \<noteq> None) xs = xs" using assms(2) by (simp add: filter_id_conv)
  then show ?thesis using assms(1) by (simp add: sum_percentages length_dropna_map)
qed

lemma calculate_statistics_Inr:
  assumes "calculate_statistics g an = Inr (st, an')"
  shows "\<exists>nc. nearby_collisions an' = Some nc
     \<and> sample_points an \<noteq> []
     \<and> (nearby_collisions an = Some nc \<or>
          nearby_collisions an = None \<and> (\<exists>an1. find_nearby_collisions g an = Inr (nc, an1)))
     \<and> stats_severity st = breakdown (length nc) (map severity_name nc)
     \<and> stats_day_of_week st = breakdown (length nc) (map day_name nc)
     \<and> stats_weather st = breakdown (length nc) (map weather_name nc)
     \<and> stats_light st = breakdown (length nc) (map light_name nc)"
proof (cases "case nearby_collisions an of
              None \<Rightarrow> find_nearby_collisions g an
            | Some nc \<Rightarrow> Inr (nc, an)")
  case (Inl e)
  from calculate_statistics_raise[OF this] assms show ?thesis by simp
next
  case (Inr x)
  obtain nc an1 where x: "x = (nc, an1)" by (cases x)
  note src = Inr[unfolded x]
  note state = nearby_source_state[OF src]
  have ne: "sample_points an1 \<noteq> []"
  proof
    assume "sample_points an1 = []"
    from calculate_statistics_no_sample_points[OF src this] assms show False by simp
  qed
  from calculate_statistics_return[OF src ne] assms
  have st: "an' = an1\<lparr>statistics := Some st\<rparr>"
    "stats_severity st = breakdown (length nc) (map severity_name nc)"
    "stats_day_of_week st = breakdown (length nc) (map day_name nc)"
    "stats_weather st = breakdown (length nc) (map weather_name nc)"
    "stats_light st = breakdown (length nc) (map light_name nc)"
    by auto
  have how: "nearby_collisions an = Some nc \<or>
          nearby_collisions an = None \<and> (\<exists>an1. find_nearby_collisions g an = Inr (nc, an1))"
    using src by (cases "nearby_collisions an") auto
  have "nearby_collisions an' = Some nc" using st(1) state(2) by simp
  moreover have "sample_points an \<noteq> []" using ne state(1) by simp
  ultimately show ?thesis using st(2-5) how by blast
qed

text \<open>
  C9, as amended. \<open>value_counts\<close> drops the missing names, and the percentages are taken
  over all matched collisions. For a non-empty matched set the percentages of a dimension
  sum to 100 times the share of the matched collisions whose name in that dimension is
  not missing; they sum to 100 when no name of the dimension is missing.
\<close>

theorem percentages_sum:
  assumes "calculate_statistics g an = Inr (st, an')"
    and "nearby_collisions an' = Some nc"
    and "nc \<noteq> []"
  shows "sum_list (map (\<lambda>(v, s). percentage s) (stats_severity st)) =
           100 * real (length (filter (\<lambda>m. severity_name m \<noteq> None) nc)) / real (length nc)
       \<and> sum_list (map (\<lambda>(v, s). percentage s) (stats_day_of_week st)) =
           100 * real (length (filter (\<lambda>m. day_name m \<noteq> None) nc)) / real (length nc)
       \<and> sum_list (map (\<lambda>(v, s). percentage s) (stats_weather st)) =
           100 * real (length (filter (\<lambda>m. weather_name m \<noteq> None) nc)) / real (length nc)
       \<and> sum_list (map (\<lambda>(v, s). percentage s) (stats_light st)) =
           100 * real (length (filter (\<lambda>m. light_name m \<noteq> None) nc)) / real (length nc)
       \<and> ((\<forall>m \<in> set nc. severity_name m \<noteq> None) \<longrightarrow>
             sum_list (map (\<lambda>(v, s). percentage s) (stats_severity st)) = 100)
       \<and> ((\<forall>m \<in> set nc. day_name m \<noteq> None) \<longrightarrow>
             sum_list (map (\<lambda>(v, s). percentage s) (stats_day_of_week st)) = 100)
       \<and> ((\<forall>m \<in> set nc. weather_name m \<noteq> None) \<longrightarrow>
             sum_list (map (\<lambda>(v, s). percentage s) (stats_weather st)) = 100)
       \<and> ((\<forall>m \<in> set nc. light_name m \<noteq> None) \<longrightarrow>
             sum_list (map (\<lambda>(v, s). percentage s) (stats_light st)) = 100)"
proof -
  from calculate_statistics_Inr[OF assms(1)] assms(2)
  have st: "stats_severity st = breakdown (length nc) (map severity_name nc)"
    "stats_day_of_week st = breakdown (length nc) (map day_name nc)"
    "stats_weather st = breakdown (length nc) (map weather_name nc)"
    "stats_light st = breakdown (length nc) (map light_name nc)"
    by auto
  show ?thesis
    unfolding st
    using sum_percentages_complete[OF assms(3), of severity_name]
      sum_percentages_complete[OF assms(3), of day_name]
      sum_percentages_complete[OF assms(3), of weather_name]
      sum_percentages_complete[OF assms(3), of light_name]
    by (simp add: sum_percentages length_dropna_map)
qed

lemma example_single_find_nearby_collisions:
  "find_nearby_collisions example_gis single_analyzer =
     Inr ([\<lparr>row = collision_a, distance_to_road_m = 30, severity_name = Some ''Fatal'',
            day_name = Some ''Monday'', weather_name = Some ''Fine no high winds'',
            light_name = Some ''Darkness - lights lit'', hour = 17\<rparr>],
          single_analyzer\<lparr>nearby_collisions := Some
          [\<lparr>row = collision_a, distance_to_road_m = 30, severity_name = Some ''Fatal'',
            day_name = Some ''Monday'', weather_name = Some ''Fine no high winds'',
            light_name = Some ''Darkness - lights lit'', hour = 17\<rparr>]\<rparr>)"
proof -
  have e: "estimate_utm_crs example_gis (sample_points single_analyzer) = Inr ()"
    by (simp add: example_gis_def single_analyzer_def CollisionAnalyzer_def)
  have n: "{l. \<exists>c \<in> set (collisions_gdf single_analyzer). l = label c \<and>
         (\<exists>s \<in> set (sample_points single_analyzer).
            point_distance (to_crs example_gis () (geometry c)) (to_crs example_gis () s)
              \<le> radius single_analyzer)} = {10}"
    by (auto simp: single_analyzer_def CollisionAnalyzer_def example_gis_def collision_a_def
      collision_b_def point_distance_le_iff power2_eq_square)
  have l: "loc label (collisions_gdf single_analyzer) (sorted_list_of_set {10}) = [collision_a]"
    by (simp add: loc_def single_analyzer_def CollisionAnalyzer_def collision_a_def collision_b_def)
  have d: "line_distance (to_crs example_gis () (geometry collision_a))
       (map (to_crs example_gis ()) (road_line single_analyzer)) = 30"
    by (simp add: example_gis_def single_analyzer_def CollisionAnalyzer_def collision_a_def
      segment_distance_def Let_def point_distance_horizontal)
  have t: "split_first (time collision_a) = ''17''"
    by (simp add: split_first_def collision_a_def)
  have s: "SEVERITY_MAP (collision_severity collision_a) = Some ''Fatal''"
      "DAY_MAP (day_of_week collision_a) = Some ''Monday''"
      "WEATHER_MAP (weather_conditions collision_a) = Some ''Fine no high winds''"
      "LIGHT_MAP (light_conditions collision_a) = Some ''Darkness - lights lit''"
    by (simp_all add: SEVERITY_MAP_def DAY_MAP_def WEATHER_MAP_def LIGHT_MAP_def collision_a_def)
  show ?thesis
    unfolding find_nearby_collisions_unfold[OF e example_gis_nonempty[OF e]] n l Let_def
    by (simp add: add_mapped_columns_def d t s int64_of_str_17)
qed

theorem percentages_sum_witness:
  "\<exists>st an'. calculate_statistics example_gis single_analyzer = Inr (st, an')
     \<and> map severity_name (the (nearby_collisions an')) = [Some ''Fatal'']
     \<and> sum_list (map (\<lambda>(v, s). percentage s) (stats_severity st)) = 100
     \<and> sum_list (map (\<lambda>(v, s). percentage s) (stats_day_of_week st)) = 100
     \<and> sum_list (map (\<lambda>(v, s). percentage s) (stats_weather st)) = 100
     \<and> sum_list (map (\<lambda>(v, s). percentage s) (stats_light st)) = 100"
proof -
  define m where "m = \<lparr>row = collision_a, distance_to_road_m = 30, severity_name = Some ''Fatal'',
            day_name = Some ''Monday'', weather_name = Some ''Fine no high winds'',
            light_name = Some ''Darkness - lights lit'', hour = 17\<rparr>"
  let ?an1 = "single_analyzer\<lparr>nearby_collisions := Some [m]\<rparr>"
  have src: "(case nearby_collisions single_analyzer of
              None \<Rightarrow> find_nearby_collisions example_gis single_analyzer
            | Some nc \<Rightarrow> Inr (nc, single_analyzer)) = Inr ([m], ?an1)"
    unfolding m_def example_single_find_nearby_collisions[symmetric]
    by (simp add: single_analyzer_def CollisionAnalyzer_def)
  have ne: "sample_points ?an1 \<noteq> []" by (simp add: single_analyzer_def CollisionAnalyzer_def)
  from calculate_statistics_return[OF src ne] obtain st
    where c: "calculate_statistics example_gis single_analyzer = Inr (st, ?an1\<lparr>statistics := Some st\<rparr>)"
    by blast
  have nb: "nearby_collisions (?an1\<lparr>statistics := Some st\<rparr>) = Some [m]" by simp
  have "[m] \<noteq> []" by simp
  from percentages_sum[OF c nb this]
  have "sum_list (map (\<lambda>(v, s). percentage s) (stats_severity st)) = 100
     \<and> sum_list (map (\<lambda>(v, s). percentage s) (stats_day_of_week st)) = 100
     \<and> sum_list (map (\<lambda>(v, s). percentage s) (stats_weather st)) = 100
     \<and> sum_list (map (\<lambda>(v, s). percentage s) (stats_light st)) = 100"
    by (simp add: m_def)
  moreover have "map severity_name (the (nearby_collisions (?an1\<lparr>statistics := Some st\<rparr>))) = [Some ''Fatal'']"
    by (simp add: m_def)
  ultimately show ?thesis
    using c
    by - (rule exI[of _ st], rule exI[of _ "?an1\<lparr>statistics := Some st\<rparr>"], simp)
qed

text \<open>
  C9 as stated fails: of the two matched collisions of the example, one has codes outside
  the lookup tables, and the percentages of each dimension sum to 50.
\<close>

theorem percentages_sum_counterexample:
  "map_sum id (\<lambda>(st, an').
       (map severity_name (the (nearby_collisions an')),
        sum_list (map (\<lambda>(v, s). percentage s) (stats_severity st)),
        sum_list (map (\<lambda>(v, s). percentage s) (stats_day_of_week st)),
        sum_list (map (\<lambda>(v, s). percentage s) (stats_weather st)),
        sum_list (map (\<lambda>(v, s). percentage s) (stats_light st))))
     (calculate_statistics example_gis example_analyzer)
   = Inr ([Some ''Fatal'', None], 50, 50, 50, 50)"
proof -
  define ma where "ma = \<lparr>row = collision_a, distance_to_road_m = 30, severity_name = Some ''Fatal'',
            day_name = Some ''Monday'', weather_name = Some ''Fine no high winds'',
            light_name = Some ''Darkness - lights lit'', hour = 17\<rparr>"
  define mc where "mc = \<lparr>row = collision_c, distance_to_road_m = 0, severity_name = None,
            day_name = None, weather_name = None, light_name = None, hour = 8\<rparr>"
  let ?an1 = "example_analyzer\<lparr>nearby_collisions := Some [ma, mc]\<rparr>"
  have src: "(case nearby_collisions example_analyzer of
              None \<Rightarrow> find_nearby_collisions example_gis example_analyzer
            | Some nc \<Rightarrow> Inr (nc, example_analyzer)) = Inr ([ma, mc], ?an1)"
    unfolding ma_def mc_def example_find_nearby_collisions[symmetric]
    by (simp add: example_analyzer_def CollisionAnalyzer_def)
  have ne: "sample_points ?an1 \<noteq> []" by (simp add: example_analyzer_def CollisionAnalyzer_def)
  from calculate_statistics_return[OF src ne] obtain st
    where c: "calculate_statistics example_gis example_analyzer = Inr (st, ?an1\<lparr>statistics := Some st\<rparr>)"
      and st: "stats_severity st = breakdown (length [ma, mc]) (map severity_name [ma, mc])"
        "stats_day_of_week st = breakdown (length [ma, mc]) (map day_name [ma, mc])"
        "stats_weather st = breakdown (length [ma, mc]) (map weather_name [ma, mc])"
        "stats_light st = breakdown (length [ma, mc]) (map light_name [ma, mc])"
    by blast
  show ?thesis
    unfolding c by (simp add: st sum_percentages dropna_def) (simp add: ma_def mc_def)
qed

end
